theory Spec2Isabelle
  imports Main "HOL-Library.AList"
begin

section \<open>JavaScript values and objects\<close>

text \<open>
  The values the HTTP binding passes around.  An object is the list of its own
  properties in insertion order; assigning an existing key keeps its position
  and assigning a new key appends it, which is what \<open>AList.update\<close> does.
  A string stands for itself in UTF-8: its characters are the bytes of its
  encoding, which are the bytes that writing it to a stream puts on the wire.
\<close>

datatype jsval =
    JUndefined
  | JNull
  | JBool bool
  | JNum int
  | JStr string
  | JObj "(string \<times> jsval) list"

type_synonym jsobj = "(string \<times> jsval) list"

text \<open>ToBoolean, as used by \<^verbatim>\<open>||\<close> and \<^verbatim>\<open>if\<close>.\<close>

fun truthy :: "jsval \<Rightarrow> bool" where
  "truthy JUndefined = False"
| "truthy JNull = False"
| "truthy (JBool b) = b"
| "truthy (JNum n) = (n \<noteq> 0)"
| "truthy (JStr s) = (s \<noteq> [])"
| "truthy (JObj ps) = True"

text \<open>\<^verbatim>\<open>a || b\<close>\<close>

definition js_or :: "jsval \<Rightarrow> jsval \<Rightarrow> jsval" where
  "js_or a b = (if truthy a then a else b)"

text \<open>\<^verbatim>\<open>obj.key\<close>: a missing property reads as \<^verbatim>\<open>undefined\<close>.\<close>

definition get_prop :: "jsobj \<Rightarrow> string \<Rightarrow> jsval" where
  "get_prop obj k = (case map_of obj k of None \<Rightarrow> JUndefined | Some v \<Rightarrow> v)"

text \<open>\<^verbatim>\<open>{...into, key: v}\<close>\<close>

definition set_prop :: "string \<Rightarrow> jsval \<Rightarrow> jsobj \<Rightarrow> jsobj" where
  "set_prop k v obj = AList.update k v obj"

text \<open>\<^verbatim>\<open>{...into, ...src}\<close>: the properties of \<open>src\<close> are assigned in order.\<close>

definition spread :: "jsobj \<Rightarrow> jsobj \<Rightarrow> jsobj" where
  "spread src into = fold (\<lambda>(k, v). set_prop k v) src into"

section \<open>Buffers\<close>

text \<open>
  A chunk of a request or response stream is a Buffer, a list of bytes:
  neither binding calls \<^verbatim>\<open>setEncoding\<close>.  \<^verbatim>\<open>data += chunk\<close> appends
  \<^verbatim>\<open>chunk.toString()\<close>, the UTF-8 decoding of that chunk alone, in which every
  ill-formed or truncated sequence of bytes becomes one replacement
  character U+FFFD (bytes \<^verbatim>\<open>ef bf bd\<close> in UTF-8).
\<close>

type_synonym buffer = "char list"

definition byte :: "char \<Rightarrow> nat" where
  "byte c = of_char c"

definition replacement :: string where
  "replacement = [CHR 0xEF, CHR 0xBF, CHR 0xBD]"

text \<open>
  The decoder, byte by byte: \<open>needed\<close> continuation bytes are still expected,
  the next one within \<open>lower\<close> and \<open>upper\<close>; \<open>seen\<close> holds the bytes of the
  sequence read so far.  A byte that cannot continue the sequence ends it
  with a replacement character and is then read as the start of a new
  sequence.
\<close>

fun utf8 :: "nat \<Rightarrow> nat \<Rightarrow> nat \<Rightarrow> buffer \<Rightarrow> buffer \<Rightarrow> string" where
  "utf8 needed lower upper seen [] = (if needed = 0 then [] else replacement)"
| "utf8 needed lower upper seen (b # bs) =
     (if needed \<noteq> 0 \<and> lower \<le> byte b \<and> byte b \<le> upper then
        (if needed = 1 then seen @ [b] @ utf8 0 0x80 0xBF [] bs
         else utf8 (needed - 1) 0x80 0xBF (seen @ [b]) bs)
      else
        (if needed \<noteq> 0 then replacement else []) @
        (if byte b \<le> 0x7F then b # utf8 0 0x80 0xBF [] bs
         else if 0xC2 \<le> byte b \<and> byte b \<le> 0xDF then utf8 1 0x80 0xBF [b] bs
         else if 0xE0 \<le> byte b \<and> byte b \<le> 0xEF then
           utf8 2 (if byte b = 0xE0 then 0xA0 else 0x80) (if byte b = 0xED then 0x9F else 0xBF) [b] bs
         else if 0xF0 \<le> byte b \<and> byte b \<le> 0xF4 then
           utf8 3 (if byte b = 0xF0 then 0x90 else 0x80) (if byte b = 0xF4 then 0x8F else 0xBF) [b] bs
         else replacement @ utf8 0 0x80 0xBF [] bs))"

text \<open>\<^verbatim>\<open>chunk.toString()\<close>, which \<^verbatim>\<open>+=\<close> applies to a Buffer.\<close>

definition toString :: "buffer \<Rightarrow> string" where
  "toString buf = utf8 0 0x80 0xBF [] buf"

text \<open>
  A buffer that is well-formed UTF-8 on its own: one-byte characters, and
  lead bytes with all their continuation bytes in range, none cut off at the
  end.
\<close>

fun utf8_text :: "buffer \<Rightarrow> bool" where
  "utf8_text [] = True"
| "utf8_text (b # bs) =
     (if byte b \<le> 0x7F then utf8_text bs
      else if 0xC2 \<le> byte b \<and> byte b \<le> 0xDF then
        (case bs of
           b1 # r \<Rightarrow> 0x80 \<le> byte b1 \<and> byte b1 \<le> 0xBF \<and> utf8_text r
         | _ \<Rightarrow> False)
      else if 0xE0 \<le> byte b \<and> byte b \<le> 0xEF then
        (case bs of
           b1 # b2 # r \<Rightarrow>
             (if byte b = 0xE0 then 0xA0 else 0x80) \<le> byte b1
             \<and> byte b1 \<le> (if byte b = 0xED then 0x9F else 0xBF)
             \<and> 0x80 \<le> byte b2 \<and> byte b2 \<le> 0xBF \<and> utf8_text r
         | _ \<Rightarrow> False)
      else if 0xF0 \<le> byte b \<and> byte b \<le> 0xF4 then
        (case bs of
           b1 # b2 # b3 # r \<Rightarrow>
             (if byte b = 0xF0 then 0x90 else 0x80) \<le> byte b1
             \<and> byte b1 \<le> (if byte b = 0xF4 then 0x8F else 0xBF)
             \<and> 0x80 \<le> byte b2 \<and> byte b2 \<le> 0xBF
             \<and> 0x80 \<le> byte b3 \<and> byte b3 \<le> 0xBF \<and> utf8_text r
         | _ \<Rightarrow> False)
      else False)"

section \<open>Handles, errors, futures and the event bus\<close>

text \<open>A handle is an opaque reference to a transport-level socket.\<close>

type_synonym handle = nat

datatype error =
    ReadError string
  | TypeError string
  | ReferenceError string
  | NetError string
  | AppError string

text \<open>
  A promise settles once: \<^verbatim>\<open>resolve\<close> and \<^verbatim>\<open>reject\<close> on a settled promise
  do nothing.
\<close>

datatype settled = Pending | Resolved jsval | Rejected error

definition settle :: "settled \<Rightarrow> settled \<Rightarrow> settled" where
  "settle new old = (case old of Pending \<Rightarrow> new | _ \<Rightarrow> old)"

text \<open>
  The arguments of an emitted event: a handle (or \<^verbatim>\<open>null\<close>), a value, a
  Buffer, an error, the \<^verbatim>\<open>req\<close> or the \<^verbatim>\<open>res\<close> object of the exchange (passed by
  reference), or the object \<^verbatim>\<open>{ req, res }\<close>.
\<close>

datatype arg =
    Handle "handle option"
  | Val jsval
  | Buf buffer
  | Err error
  | Req
  | Res
  | ReqRes

datatype transport = HTTP | HTTPS

text \<open>
  Everything a binding does to the outside world, in the order it does it.
  \<open>CreateRequest\<close> is the call of \<^verbatim>\<open>protocol.request\<close> with the transport and
  the options it is given.
\<close>

datatype effect =
    Emit string "arg list"
  | CreateRequest transport jsobj
  | ReqWrite string
  | ReqEnd
  | SockEnd handle
  | SockDestroy handle
  | Resolve jsval
  | Reject error

section \<open>HTTPClient\<close>

record http_client =
  options :: jsobj
  connection :: "handle option"
  trace :: "effect list"

text \<open>
  Modelled from the spec: \<^verbatim>\<open>ProtocolClient.prototype.call\<close> and
  \<^verbatim>\<open>ProtocolServer.prototype.call\<close> live in \<^verbatim>\<open>../index.js\<close>, which is not part of
  the sources.  The spec (section 6) gives the contract: \<^verbatim>\<open>call(name, ...args)\<close>
  dispatches to the handlers registered for \<open>name\<close> and never throws back to
  the binding.  The handlers are application code; the model records the
  event that was dispatched.
\<close>

definition call :: "string \<Rightarrow> arg list \<Rightarrow> effect list \<Rightarrow> effect list" where
  "call name args tr = tr @ [Emit name args]"

text \<open>
  \<^verbatim>\<open>function HTTPClient(options = {})\<close>: \<^verbatim>\<open>this.options = { method: 'GET', ...options }\<close>.
  Modelled from the spec: the base constructor \<^verbatim>\<open>ProtocolClient\<close> is in
  \<^verbatim>\<open>../index.js\<close>; by the spec a client holds no handle until a response
  arrives, and nothing has been emitted yet.
\<close>

definition HTTPClient :: "jsobj \<Rightarrow> http_client" where
  "HTTPClient opts =
     \<lparr> options = spread opts [(''method'', JStr ''GET'')],
       connection = None,
       trace = [] \<rparr>"

text \<open>
  The option object built at the top of \<^verbatim>\<open>send\<close>:
  \<^verbatim>\<open>{ ...this.options, ...requestOptions,
      hostname: this.options.hostname || requestOptions.hostname,
      port: this.options.port || requestOptions.port,
      path: this.options.path || requestOptions.path || '/',
      protocol: this.options.protocol || requestOptions.protocol || 'http:' }\<close>
\<close>

definition resolve_options :: "jsobj \<Rightarrow> jsobj \<Rightarrow> jsobj" where
  "resolve_options this_options requestOptions =
     set_prop ''protocol''
       (js_or (js_or (get_prop this_options ''protocol'') (get_prop requestOptions ''protocol''))
              (JStr ''http:''))
    (set_prop ''path''
       (js_or (js_or (get_prop this_options ''path'') (get_prop requestOptions ''path''))
              (JStr ''/''))
    (set_prop ''port''
       (js_or (get_prop this_options ''port'') (get_prop requestOptions ''port''))
    (set_prop ''hostname''
       (js_or (get_prop this_options ''hostname'') (get_prop requestOptions ''hostname''))
    (spread requestOptions (spread this_options [])))))"

text \<open>\<^verbatim>\<open>options.protocol === 'https:' ? https : http\<close>\<close>

definition select_transport :: "jsobj \<Rightarrow> transport" where
  "select_transport opts = (if get_prop opts ''protocol'' = JStr ''https:'' then HTTPS else HTTP)"

text \<open>
  The state one \<^verbatim>\<open>send\<close> call closes over: whether \<^verbatim>\<open>protocol.request\<close>
  returned a request (only then are there listeners), the socket of that
  request, whether the response callback has run (it is a one-time listener, and only it
  registers the listeners of the response stream), the status and headers of
  the response, the accumulated body and the promise the call returned.
\<close>

record client_call =
  requested :: bool
  req_socket :: handle
  responded :: bool
  res_statusCode :: jsval
  res_headers :: jsval
  responseData :: string
  promise :: settled

text \<open>
  \<^verbatim>\<open>send(requestOptions = {}, requestBody)\<close> up to the point where the promise
  executor returns.  \<^verbatim>\<open>protocol.request(options, ...)\<close> comes first.  It
  validates the options and throws at once on options it refuses (a protocol
  that is not its own, a path with a space, ...): \<open>check\<close> stands for that
  validation, which is the transport's, and gives the error thrown, if any.
  A throw inside the executor rejects the promise, and nothing after it
  runs: no listener, no \<^verbatim>\<open>send\<close> event.  Otherwise \<^verbatim>\<open>send\<close> is emitted with a
  \<^verbatim>\<open>null\<close> handle, then the body is written when it is truthy, then the
  request is ended.  \<^verbatim>\<open>req.write\<close> throws a TypeError on a chunk that is not a
  string, and \<^verbatim>\<open>req.end()\<close> is then not reached.  \<open>sock\<close> is the socket the
  transport assigns to this request.
\<close>

definition send ::
  "(transport \<Rightarrow> jsobj \<Rightarrow> error option) \<Rightarrow> handle \<Rightarrow> jsobj option \<Rightarrow> jsval \<Rightarrow>
   http_client \<Rightarrow> http_client \<times> client_call" where
  "send check sock requestOptions requestBody c =
     (let ro = (case requestOptions of None \<Rightarrow> [] | Some obj \<Rightarrow> obj);
          opts = resolve_options (options c) ro;
          t0 = trace c @ [CreateRequest (select_transport opts) opts];
          k = \<lparr> requested = True, req_socket = sock, responded = False,
                res_statusCode = JUndefined, res_headers = JUndefined, responseData = [],
                promise = Pending \<rparr>
      in case check (select_transport opts) opts of
           Some err \<Rightarrow>
             (c\<lparr>trace := t0 @ [Reject err]\<rparr>, k\<lparr>requested := False, promise := Rejected err\<rparr>)
         | None \<Rightarrow>
             (let t1 = call ''send'' [Handle None,
                         Val (JObj [(''options'', JObj opts), (''body'', requestBody)])] t0
              in if truthy requestBody then
                   (case requestBody of
                      JStr b \<Rightarrow> (c\<lparr>trace := t1 @ [ReqWrite b, ReqEnd]\<rparr>, k)
                    | _ \<Rightarrow> (c\<lparr>trace := t1 @ [Reject (TypeError ''chunk'')]\<rparr>,
                            k\<lparr>promise := Rejected (TypeError ''chunk'')\<rparr>))
                 else (c\<lparr>trace := t1 @ [ReqEnd]\<rparr>, k)))"

text \<open>\<^verbatim>\<open>sendRequest(options, body)\<close> returns \<^verbatim>\<open>this.send(options, body)\<close>.\<close>

definition sendRequest ::
  "(transport \<Rightarrow> jsobj \<Rightarrow> error option) \<Rightarrow> handle \<Rightarrow> jsobj option \<Rightarrow> jsval \<Rightarrow>
   http_client \<Rightarrow> http_client \<times> client_call" where
  "sendRequest check sock opts body c = send check sock opts body c"

text \<open>
  One of the checks of \<^verbatim>\<open>protocol.request\<close>: the protocol of the options must
  be the transport's own, \<^verbatim>\<open>'http:'\<close> for \<^verbatim>\<open>http\<close> and \<^verbatim>\<open>'https:'\<close> for \<^verbatim>\<open>https\<close>.
\<close>

definition protocol_supported :: "transport \<Rightarrow> jsobj \<Rightarrow> error option" where
  "protocol_supported t opts =
     (if get_prop opts ''protocol'' = JStr (case t of HTTP \<Rightarrow> ''http:'' | HTTPS \<Rightarrow> ''https:'')
      then None else Some (TypeError ''ERR_INVALID_PROTOCOL''))"

text \<open>
  What the transport delivers to one call after the request was issued: the
  response head (status code and headers), a body chunk, the end of the
  response stream, an error of the response stream, an error of the request.
  A call without a request has no listener and takes none of them.
\<close>

datatype net_event =
    Response int jsobj
  | Data buffer
  | End
  | ResError error
  | ReqError error

definition resolve :: "jsval \<Rightarrow> http_client \<times> client_call \<Rightarrow> http_client \<times> client_call" where
  "resolve v = (\<lambda>(c, k).
     (c\<lparr>trace := trace c @ [Resolve v]\<rparr>, k\<lparr>promise := settle (Resolved v) (promise k)\<rparr>))"

definition reject :: "error \<Rightarrow> http_client \<times> client_call \<Rightarrow> http_client \<times> client_call" where
  "reject e = (\<lambda>(c, k).
     (c\<lparr>trace := trace c @ [Reject e]\<rparr>, k\<lparr>promise := settle (Rejected e) (promise k)\<rparr>))"

text \<open>
  The response callback: \<^verbatim>\<open>this.connection = req.socket; this.call('connect', req.socket)\<close>,
  then the listeners of the response stream are registered.
\<close>

definition on_response :: "int \<Rightarrow> jsobj \<Rightarrow> http_client \<times> client_call \<Rightarrow> http_client \<times> client_call" where
  "on_response sc hs = (\<lambda>(c, k).
     if \<not> requested k \<or> responded k then (c, k)
     else (c\<lparr>connection := Some (req_socket k),
              trace := call ''connect'' [Handle (Some (req_socket k))] (trace c)\<rparr>,
           k\<lparr>responded := True, res_statusCode := JNum sc, res_headers := JObj hs\<rparr>))"

text \<open>\<^verbatim>\<open>res.on('data')\<close>: \<^verbatim>\<open>responseData += chunk; this.call('receive', req.socket, chunk)\<close>\<close>

definition on_data :: "buffer \<Rightarrow> http_client \<times> client_call \<Rightarrow> http_client \<times> client_call" where
  "on_data chunk = (\<lambda>(c, k).
     if \<not> responded k then (c, k)
     else (c\<lparr>trace := call ''receive'' [Handle (Some (req_socket k)), Buf chunk] (trace c)\<rparr>,
           k\<lparr>responseData := responseData k @ toString chunk\<rparr>))"

text \<open>
  \<^verbatim>\<open>res.on('end')\<close>: emit \<^verbatim>\<open>disconnect\<close> with the socket, resolve with
  \<^verbatim>\<open>{ statusCode: res.statusCode, headers: res.headers, data: responseData }\<close>,
  clear \<^verbatim>\<open>this.connection\<close>.
\<close>

definition on_end :: "http_client \<times> client_call \<Rightarrow> http_client \<times> client_call" where
  "on_end = (\<lambda>(c, k).
     if \<not> responded k then (c, k)
     else
       (let c1 = c\<lparr>trace := call ''disconnect'' [Handle (Some (req_socket k))] (trace c)\<rparr>;
            (c2, k2) = resolve (JObj [(''statusCode'', res_statusCode k),
                                      (''headers'', res_headers k),
                                      (''data'', JStr (responseData k))]) (c1, k)
        in (c2\<lparr>connection := None\<rparr>, k2)))"

text \<open>\<^verbatim>\<open>res.on('error')\<close>\<close>

definition on_res_error :: "error \<Rightarrow> http_client \<times> client_call \<Rightarrow> http_client \<times> client_call" where
  "on_res_error err = (\<lambda>(c, k).
     if \<not> responded k then (c, k)
     else
       (let c1 = c\<lparr>trace := call ''error'' [Err err, Val (JStr ''responseError''),
                                             Handle (Some (req_socket k))] (trace c)\<rparr>;
            (c2, k2) = reject err (c1, k)
        in (c2\<lparr>connection := None\<rparr>, k2)))"

text \<open>\<^verbatim>\<open>req.on('error')\<close>, registered as soon as the request exists.\<close>

definition on_req_error :: "error \<Rightarrow> http_client \<times> client_call \<Rightarrow> http_client \<times> client_call" where
  "on_req_error err = (\<lambda>(c, k).
     if \<not> requested k then (c, k)
     else
     (let c1 = c\<lparr>trace := call ''error'' [Err err, Val (JStr ''requestError''), Handle None] (trace c)\<rparr>;
          (c2, k2) = reject err (c1, k)
      in (c2\<lparr>connection := None\<rparr>, k2)))"

fun deliver :: "net_event \<Rightarrow> http_client \<times> client_call \<Rightarrow> http_client \<times> client_call" where
  "deliver (Response sc hs) st = on_response sc hs st"
| "deliver (Data chunk) st = on_data chunk st"
| "deliver End st = on_end st"
| "deliver (ResError err) st = on_res_error err st"
| "deliver (ReqError err) st = on_req_error err st"

text \<open>One whole call: \<^verbatim>\<open>send\<close>, then the events of the transport in order.\<close>

definition client_exchange ::
  "(transport \<Rightarrow> jsobj \<Rightarrow> error option) \<Rightarrow> handle \<Rightarrow> jsobj option \<Rightarrow> jsval \<Rightarrow>
   net_event list \<Rightarrow> http_client \<Rightarrow> http_client \<times> client_call" where
  "client_exchange check sock requestOptions requestBody evs c =
     fold deliver evs (send check sock requestOptions requestBody c)"

text \<open>\<^verbatim>\<open>handshake()\<close>: \<^verbatim>\<open>await this.call('handshake', this.connection)\<close>\<close>

definition handshake :: "http_client \<Rightarrow> http_client" where
  "handshake c = c\<lparr>trace := call ''handshake'' [Handle (connection c)] (trace c)\<rparr>"

text \<open>
  \<^verbatim>\<open>disconnect()\<close>.  With a handle held: \<^verbatim>\<open>this.connection.end()\<close>,
  \<^verbatim>\<open>this.connection.destroy()\<close>, \<^verbatim>\<open>this.connection = null\<close>, and then
  \<^verbatim>\<open>this.call('disconnect', this.connection)\<close>, which reads the field after it
  was cleared.  Without one: \<^verbatim>\<open>this.call('disconnect', null)\<close>.  Ending and
  destroying a socket do not throw, and neither does \<open>call\<close>, so the function
  has no error result.
\<close>

definition disconnect :: "http_client \<Rightarrow> http_client" where
  "disconnect c =
     (case connection c of
        Some h \<Rightarrow>
          (let c1 = c\<lparr>trace := trace c @ [SockEnd h, SockDestroy h]\<rparr>;
               c2 = c1\<lparr>connection := None\<rparr>
           in c2\<lparr>trace := call ''disconnect'' [Handle (connection c2)] (trace c2)\<rparr>)
      | None \<Rightarrow> c\<lparr>trace := call ''disconnect'' [Handle None] (trace c)\<rparr>)"

section \<open>HTTPServer\<close>

text \<open>
  The response object of one exchange, as far as the binding and a handler
  touch it.  \<open>statusCode\<close> is the property (200 until assigned); the status
  line goes on the wire with the first write and is then fixed.  Writing to or
  ending a finished response puts nothing on the wire and does not throw.
\<close>

record response =
  statusCode :: int
  headersSent :: bool
  finished :: bool
  wire_status :: "int option"
  wire_body :: string

definition new_response :: response where
  "new_response =
     \<lparr> statusCode = 200, headersSent = False, finished = False,
       wire_status = None, wire_body = [] \<rparr>"

definition res_write :: "string \<Rightarrow> response \<Rightarrow> response" where
  "res_write chunk r =
     (if finished r then r
      else r\<lparr> wire_status := (if headersSent r then wire_status r else Some (statusCode r)),
              headersSent := True,
              wire_body := wire_body r @ chunk \<rparr>)"

definition res_end :: "string \<Rightarrow> response \<Rightarrow> response" where
  "res_end chunk r =
     (if finished r then r else (res_write chunk r)\<lparr>finished := True\<rparr>)"

text \<open>
  Modelled from the spec: \<^verbatim>\<open>ProtocolServer.prototype.processMessage\<close> is in
  \<^verbatim>\<open>../index.js\<close>; by the spec it invokes the handler the application
  registered for \<^verbatim>\<open>processMessage\<close> with the handle, the body and
  \<^verbatim>\<open>{ req, res }\<close>, and the binding awaits the result.  The handler may write
  to the response, and its promise is fulfilled with a value, rejected with
  an error, or never settled.
\<close>

datatype pm_outcome = Returns jsval | Throws error | Never_settles

type_synonym process_message = "handle \<Rightarrow> string \<Rightarrow> response \<Rightarrow> response \<times> pm_outcome"

record server_config =
  ssl :: "(string \<times> string) option"

record listener =
  secure :: bool
  tls :: "(string \<times> string) option"
  bound_port :: nat
  bound_address :: string
  listening :: bool
  error_listeners :: nat

record http_server =
  server :: "listener option"
  config :: server_config
  emitted :: "effect list"

text \<open>\<^verbatim>\<open>function HTTPServer()\<close>: \<^verbatim>\<open>this.server = null; this.config = {}\<close>\<close>

definition HTTPServer :: http_server where
  "HTTPServer = \<lparr> server = None, config = \<lparr> ssl = None \<rparr>, emitted = [] \<rparr>"

text \<open>
  Modelled from the spec: the base hooks \<^verbatim>\<open>ProtocolServer.prototype.init\<close>,
  \<^verbatim>\<open>listen\<close> and \<^verbatim>\<open>shutdown\<close> are in \<^verbatim>\<open>../index.js\<close>; the spec gives them as
  futures of no value that the binding awaits before its own work, so they
  leave the state of the binding as it is.
\<close>

definition init :: "server_config \<Rightarrow> http_server \<Rightarrow> http_server" where
  "init cfg s = s\<lparr>config := cfg\<rparr>"

text \<open>
  Modelled from the spec: \<^verbatim>\<open>ProtocolServer.prototype.handleConnection\<close> is in
  \<^verbatim>\<open>../index.js\<close>; the spec has it emit \<^verbatim>\<open>connect\<close> with the transport handle.
\<close>

definition handleConnection :: "handle \<Rightarrow> effect list \<Rightarrow> effect list" where
  "handleConnection h tr = call ''connect'' [Handle (Some h)] tr"

text \<open>The state one invocation of \<^verbatim>\<open>serverCallback(req, res)\<close> closes over.\<close>

record exchange =
  socket :: handle
  data :: string
  res :: response

text \<open>
  \<^verbatim>\<open>req.on('data')\<close>: \<^verbatim>\<open>data += chunk\<close>, which decodes the chunk on its own and
  appends the string.
\<close>

definition req_on_data :: "buffer \<Rightarrow> http_server \<times> exchange \<Rightarrow> http_server \<times> exchange" where
  "req_on_data chunk = (\<lambda>(s, x). (s, x\<lparr>data := data x @ toString chunk\<rparr>))"

text \<open>
  \<^verbatim>\<open>req.on('end')\<close>.  Inside the \<^verbatim>\<open>try\<close>: \<^verbatim>\<open>handleConnection\<close>, the
  \<^verbatim>\<open>receive\<close> event, the awaited \<^verbatim>\<open>processMessage\<close>; a result other than
  \<^verbatim>\<open>undefined\<close> is emitted as \<^verbatim>\<open>respond\<close> and, when it is a string, passed to
  \<^verbatim>\<open>res.end\<close>.  The \<^verbatim>\<open>catch\<close>: \<^verbatim>\<open>res.statusCode = 500\<close>,
  \<^verbatim>\<open>res.end('Internal Server Error')\<close>, then the \<^verbatim>\<open>error\<close> event tagged
  \<^verbatim>\<open>requestHandler\<close>.
\<close>

definition req_on_end :: "process_message \<Rightarrow> http_server \<times> exchange \<Rightarrow> http_server \<times> exchange" where
  "req_on_end pm = (\<lambda>(s, x).
     (let t1 = handleConnection (socket x) (emitted s);
          t2 = call ''receive'' [Handle (Some (socket x)), Val (JStr (data x))] t1;
          (r, outcome) = pm (socket x) (data x) (res x)
      in case outcome of
           Never_settles \<Rightarrow> (s\<lparr>emitted := t2\<rparr>, x\<lparr>res := r\<rparr>)
         | Throws err \<Rightarrow>
             (s\<lparr>emitted := call ''error'' [Err err, Val (JStr ''requestHandler''), Req, Res] t2\<rparr>,
              x\<lparr>res := res_end ''Internal Server Error'' (r\<lparr>statusCode := 500\<rparr>)\<rparr>)
         | Returns responseData' \<Rightarrow>
             (if responseData' \<noteq> JUndefined then
                (s\<lparr>emitted := call ''respond'' [Handle (Some (socket x)), Val responseData', ReqRes] t2\<rparr>,
                 (case responseData' of
                    JStr str \<Rightarrow> x\<lparr>res := res_end str r\<rparr>
                  | _ \<Rightarrow> x\<lparr>res := r\<rparr>))
              else (s\<lparr>emitted := t2\<rparr>, x\<lparr>res := r\<rparr>))))"

text \<open>\<^verbatim>\<open>req.on('error')\<close>\<close>

definition req_on_error :: "error \<Rightarrow> http_server \<times> exchange \<Rightarrow> http_server \<times> exchange" where
  "req_on_error err = (\<lambda>(s, x).
     (s\<lparr>emitted := call ''error'' [Err err, Val (JStr ''requestError''), Req, Res] (emitted s)\<rparr>, x))"

text \<open>What the request stream of one exchange delivers.\<close>

datatype req_event = Chunk buffer | EndOfRequest | RequestError error

fun serve :: "process_message \<Rightarrow> req_event \<Rightarrow> http_server \<times> exchange \<Rightarrow> http_server \<times> exchange" where
  "serve pm (Chunk chunk) st = req_on_data chunk st"
| "serve pm EndOfRequest st = req_on_end pm st"
| "serve pm (RequestError err) st = req_on_error err st"

text \<open>
  \<^verbatim>\<open>serverCallback(req, res)\<close>: \<^verbatim>\<open>let data = ''\<close>, the three listeners, and then
  the events of the request stream in order.
\<close>

definition serverCallback ::
  "process_message \<Rightarrow> handle \<Rightarrow> req_event list \<Rightarrow> http_server \<Rightarrow> http_server \<times> exchange" where
  "serverCallback pm h evs s =
     fold (serve pm) evs (s, \<lparr> socket = h, data = [], res = new_response \<rparr>)"

text \<open>A request whose body arrives in the chunks \<open>cs\<close> and then ends.\<close>

definition request_stream :: "buffer list \<Rightarrow> req_event list" where
  "request_stream cs = map Chunk cs @ [EndOfRequest]"

subsection \<open>listen\<close>

text \<open>
  The file system as \<^verbatim>\<open>fs.readFileSync\<close> sees it: the content of a readable
  file, nothing for a path that cannot be read, in which case the call
  throws.
\<close>

definition readFileSync :: "(string \<rightharpoonup> string) \<Rightarrow> string \<Rightarrow> error + string" where
  "readFileSync fs path = (case fs path of None \<Rightarrow> Inl (ReadError path) | Some content \<Rightarrow> Inr content)"

text \<open>
  \<^verbatim>\<open>createServer(...).listen(port, address, callback)\<close>: the listener exists
  and is not listening yet.  A key and a certificate that could be read are
  taken to be well-formed, and the port to be in range, so that creating the
  listener does not throw.
\<close>

definition createServer :: "(string \<times> string) option \<Rightarrow> nat \<Rightarrow> string \<Rightarrow> listener" where
  "createServer sslOptions port address =
     \<lparr> secure = (sslOptions \<noteq> None), tls = sslOptions, bound_port = port,
       bound_address = address, listening = False, error_listeners = 0 \<rparr>"

text \<open>
  The executor of the promise that \<^verbatim>\<open>listen\<close> returns.  With
  \<^verbatim>\<open>this.config.ssl\<close> set, key and certificate are read inside a \<^verbatim>\<open>try\<close> whose
  \<^verbatim>\<open>catch\<close> rejects with the error; otherwise a plain listener is made.
  After either branch comes \<^verbatim>\<open>self.server.on('error', ...)\<close>: with
  \<^verbatim>\<open>self.server\<close> still \<^verbatim>\<open>null\<close> this throws a TypeError inside the executor,
  which rejects the promise unless it is settled already.
\<close>

definition listen :: "(string \<rightharpoonup> string) \<Rightarrow> nat \<Rightarrow> string \<Rightarrow> http_server \<Rightarrow> http_server \<times> settled" where
  "listen fs port address s =
     (let (s1, p1) =
        (case ssl (config s) of
           Some (keyPath, certPath) \<Rightarrow>
             (case readFileSync fs keyPath of
                Inl err \<Rightarrow> (s, settle (Rejected err) Pending)
              | Inr key \<Rightarrow>
                  (case readFileSync fs certPath of
                     Inl err \<Rightarrow> (s, settle (Rejected err) Pending)
                   | Inr cert \<Rightarrow>
                       (s\<lparr>server := Some (createServer (Some (key, cert)) port address)\<rparr>, Pending)))
         | None \<Rightarrow> (s\<lparr>server := Some (createServer None port address)\<rparr>, Pending))
      in case server s1 of
           None \<Rightarrow> (s1, settle (Rejected (TypeError ''on'')) p1)
         | Some l \<Rightarrow> (s1\<lparr>server := Some (l\<lparr>error_listeners := Suc (error_listeners l)\<rparr>)\<rparr>, p1))"

text \<open>
  What the listener delivers to the closure of that \<^verbatim>\<open>listen\<close> call: it is
  bound (the callback calls \<^verbatim>\<open>resolve()\<close>), or it has an error (the handler
  emits \<^verbatim>\<open>error\<close> tagged \<^verbatim>\<open>listen\<close> and calls \<^verbatim>\<open>reject(err)\<close>).  Without a
  listener nothing is delivered.
\<close>

datatype listener_event = Listening | ListenerError error

fun listener_step :: "listener_event \<Rightarrow> http_server \<times> settled \<Rightarrow> http_server \<times> settled" where
  "listener_step Listening (s, p) =
     (case server s of
        None \<Rightarrow> (s, p)
      | Some l \<Rightarrow> (s\<lparr>server := Some (l\<lparr>listening := True\<rparr>)\<rparr>, settle (Resolved JUndefined) p))"
| "listener_step (ListenerError err) (s, p) =
     (case server s of
        None \<Rightarrow> (s, p)
      | Some l \<Rightarrow>
          (s\<lparr>emitted := call ''error'' [Err err, Val (JStr ''listen'')] (emitted s)\<rparr>,
           settle (Rejected err) p))"

section \<open>runClients\<close>

text \<open>
  The bindings an identifier in the body of \<^verbatim>\<open>runClients\<close> can resolve to: the
  parameters and the \<^verbatim>\<open>const\<close> of the function, the declarations of the
  module, and the globals the module refers to.  Reading an identifier that
  is in none of them throws a ReferenceError.
\<close>

definition runClients_scope :: "string list" where
  "runClients_scope = [''callbacks'', ''config'', ''data'', ''options'', ''postClient'']"

definition module_scope :: "string list" where
  "module_scope =
     [''http'', ''https'', ''net'', ''fs'', ''ProtocolServer'', ''ProtocolClient'',
      ''HTTPServer'', ''runServers'', ''HTTPClient'', ''runClients'']"

definition node_globals :: "string list" where
  "node_globals = [''require'', ''module'', ''console'', ''JSON'', ''Promise'', ''Object'']"

definition resolve_identifier :: "string list \<Rightarrow> string \<Rightarrow> error + unit" where
  "resolve_identifier scope x = (if x \<in> set scope then Inr () else Inl (ReferenceError x))"

text \<open>The literal that \<^verbatim>\<open>config || { ... }\<close> falls back to; \<^verbatim>\<open>...config\<close> adds nothing then.\<close>

definition default_post_options :: jsobj where
  "default_post_options =
     [(''port'', JNum 443), (''protocol'', JStr ''https:''), (''method'', JStr ''POST''),
      (''headers'', JObj [(''Content-Type'', JStr ''application/json'')])]"

text \<open>
  \<^verbatim>\<open>async function runClients(callbacks, config, data, options)\<close>; an argument
  left out is \<open>None\<close>.  The result is the state of \<^verbatim>\<open>postClient\<close> and the
  promise the call returns: a throw in the body of an async function rejects
  it.  After \<^verbatim>\<open>postClient\<close> is constructed, the first registration
  \<^verbatim>\<open>httpClient.on('connect', callbacks["connect"] || ...)\<close> reads
  \<^verbatim>\<open>httpClient\<close> before it reads \<^verbatim>\<open>callbacks\<close>.  The \<^verbatim>\<open>try\<close> block serialises
  \<^verbatim>\<open>data || {}\<close> (with \<open>stringify\<close> for \<^verbatim>\<open>JSON.stringify\<close>, and \<open>check\<close> for the
  validation of \<^verbatim>\<open>protocol.request\<close>), awaits
  \<^verbatim>\<open>postClient.sendRequest(options || {}, postData)\<close> and then
  \<^verbatim>\<open>postClient.disconnect()\<close>; its \<^verbatim>\<open>catch\<close> only logs.
\<close>

definition runClients ::
  "(transport \<Rightarrow> jsobj \<Rightarrow> error option) \<Rightarrow> (jsval \<Rightarrow> string) \<Rightarrow> handle \<Rightarrow> net_event list \<Rightarrow>
   jsobj option \<Rightarrow> jsobj option \<Rightarrow> jsval \<Rightarrow> jsobj option \<Rightarrow> http_client \<times> settled" where
  "runClients check stringify sock evs callbacks cfg dat opts =
     (let postClient = HTTPClient (case cfg of Some obj \<Rightarrow> obj | None \<Rightarrow> default_post_options)
      in case resolve_identifier (runClients_scope @ module_scope @ node_globals) ''httpClient'' of
           Inl err \<Rightarrow> (postClient, Rejected err)
         | Inr _ \<Rightarrow>
             (case callbacks of
                None \<Rightarrow> (postClient, Rejected (TypeError ''callbacks''))
              | Some _ \<Rightarrow>
                  (let postData = stringify (if truthy dat then dat else JObj []);
                       (c, k) = fold deliver evs
                                  (sendRequest check sock (Some (case opts of Some obj \<Rightarrow> obj | None \<Rightarrow> []))
                                     (JStr postData) postClient)
                   in case promise k of
                        Pending \<Rightarrow> (c, Pending)
                      | Resolved postResponse \<Rightarrow> (disconnect c, Resolved JUndefined)
                      | Rejected err \<Rightarrow> (c, Resolved JUndefined))))"

section \<open>Reading a trace\<close>

text \<open>The requests a trace created, each with its transport and its options.\<close>

fun issued :: "effect list \<Rightarrow> (transport \<times> jsobj) list" where
  "issued [] = []"
| "issued (CreateRequest t opts # es) = (t, opts) # issued es"
| "issued (e # es) = issued es"

text \<open>The events a trace emitted, each with its arguments, in order.\<close>

fun emissions :: "effect list \<Rightarrow> (string \<times> arg list) list" where
  "emissions [] = []"
| "emissions (Emit name args # es) = (name, args) # emissions es"
| "emissions (e # es) = emissions es"

text \<open>The lifecycle events among them: all but those of the error channel.\<close>

definition lifecycle :: "(string \<times> arg list) list \<Rightarrow> (string \<times> arg list) list" where
  "lifecycle evs = filter (\<lambda>ev. fst ev \<noteq> ''error'') evs"

text \<open>
  The order of the client's lifecycle events within one call: \<^verbatim>\<open>send\<close> with a
  \<^verbatim>\<open>null\<close> handle first; if anything follows, \<^verbatim>\<open>connect\<close>, then any number
  of \<^verbatim>\<open>receive\<close>, then at most one \<^verbatim>\<open>disconnect\<close>, which is last.
\<close>

fun receives_then_disconnect :: "(string \<times> arg list) list \<Rightarrow> bool" where
  "receives_then_disconnect [] = True"
| "receives_then_disconnect (ev # evs) =
     (if fst ev = ''receive'' then receives_then_disconnect evs
      else fst ev = ''disconnect'' \<and> evs = [])"

fun client_order :: "(string \<times> arg list) list \<Rightarrow> bool" where
  "client_order [] = False"
| "client_order (ev # evs) =
     (fst ev = ''send'' \<and> take 1 (snd ev) = [Handle None] \<and>
      (case evs of
         [] \<Rightarrow> True
       | ev' # evs' \<Rightarrow> fst ev' = ''connect'' \<and> receives_then_disconnect evs'))"

text \<open>
  What the transport guarantees about the events of one call: once the
  response stream has ended it delivers no further chunk and no second end,
  only errors.
\<close>

fun is_error_event :: "net_event \<Rightarrow> bool" where
  "is_error_event (ResError err) = True"
| "is_error_event (ReqError err) = True"
| "is_error_event ev = False"

fun stream_ok :: "net_event list \<Rightarrow> bool" where
  "stream_ok [] = True"
| "stream_ok (End # evs) = list_all is_error_event evs"
| "stream_ok (ev # evs) = stream_ok evs"

text \<open>A response that arrives in the chunks \<open>chunks\<close> and completes without error.\<close>

definition response_stream :: "int \<Rightarrow> jsobj \<Rightarrow> buffer list \<Rightarrow> net_event list" where
  "response_stream sc hs chunks = Response sc hs # map Data chunks @ [End]"


text \<open>
  A \<^verbatim>\<open>processMessage\<close> handler that returns its body argument unchanged and
  leaves the response alone.
\<close>

definition echo :: process_message where
  "echo h body r = (r, Returns (JStr body))"


section \<open>Properties of the option merge\<close>

lemma get_prop_set_prop:
  "get_prop (set_prop k v obj) k' = (if k' = k then v else get_prop obj k')"
  by (simp add: get_prop_def set_prop_def update_conv')

lemma map_of_spread: "map_of (spread src into) = map_of into ++ map_of (rev src)"
proof (induction src arbitrary: into)
  case Nil
  then show ?case by (simp add: spread_def)
next
  case (Cons p ps)
  obtain k v where p: "p = (k, v)" by (cases p)
  have "map_of (spread (p # ps) into) = map_of (spread ps (set_prop k v into))"
    by (simp add: spread_def p)
  also have "\<dots> = map_of (set_prop k v into) ++ map_of (rev ps)"
    by (rule Cons.IH)
  also have "\<dots> = map_of into ++ map_of (rev (p # ps))"
    by (auto simp: set_prop_def update_conv' p fun_eq_iff map_add_def split: option.splits)
  finally show ?case .
qed

lemma map_of_rev_distinct: "distinct (map fst xs) \<Longrightarrow> map_of (rev xs) = map_of xs"
proof (induction xs)
  case Nil
  then show ?case by simp
next
  case (Cons p ps)
  obtain k v where p: "p = (k, v)" by (cases p)
  from Cons.prems p have notin: "map_of ps k = None"
    by (simp add: map_of_eq_None_iff)
  from Cons have IH: "map_of (rev ps) = map_of ps" by simp
  show ?case
    using notin by (auto simp: p IH fun_eq_iff map_add_def split: option.splits)
qed

lemma get_prop_spread:
  assumes "distinct (map fst src)" and "distinct (map fst into)"
  shows "get_prop (spread src (spread into [])) k =
           (if k \<in> fst ` set src then get_prop src k else get_prop into k)"
proof -
  have "map_of (spread src (spread into [])) = map_of into ++ map_of src"
    using assms by (simp add: map_of_spread map_of_rev_distinct)
  moreover have "k \<in> fst ` set src \<longleftrightarrow> map_of src k \<noteq> None"
    by (simp add: map_of_eq_None_iff)
  ultimately show ?thesis
    by (cases "map_of src k") (simp_all add: get_prop_def map_add_def)
qed

section \<open>The client: option merge (C1)\<close>

lemma issued_append: "issued (xs @ ys) = issued xs @ issued ys"
  by (induction xs rule: issued.induct) simp_all

text \<open>
  Claim C1, as stated: the call-time values for host, port, path and scheme
  win over the constructor defaults.  They do not.  A client constructed with
  a hostname, a port, a path and a protocol, sent with four different
  call-time values, issues its request over plain HTTP with the four
  constructor values.
\<close>

theorem send_call_time_options_counterexample:
  "issued (trace (fst (send protocol_supported 1
      (Some [(''hostname'', JStr ''b.example''), (''port'', JNum 8080),
             (''path'', JStr ''/y''), (''protocol'', JStr ''https:'')])
      JUndefined
      (HTTPClient [(''hostname'', JStr ''a.example''), (''port'', JNum 80),
                   (''path'', JStr ''/x''), (''protocol'', JStr ''http:'')]))))
   = [(HTTP, [(''method'', JStr ''GET''), (''hostname'', JStr ''a.example''),
              (''port'', JNum 80), (''path'', JStr ''/x''), (''protocol'', JStr ''http:'')])]"
  by (simp add: send_def HTTPClient_def resolve_options_def spread_def set_prop_def
      get_prop_def js_or_def call_def select_transport_def protocol_supported_def Let_def)

lemma issued_send:
  "issued (trace (fst (send check sock ro body c))) =
     issued (trace c) @
       [(select_transport (resolve_options (options c) (case ro of None \<Rightarrow> [] | Some obj \<Rightarrow> obj)),
         resolve_options (options c) (case ro of None \<Rightarrow> [] | Some obj \<Rightarrow> obj))]"
  by (cases body)
     (simp_all add: send_def call_def Let_def issued_append split: option.splits)

text \<open>
  Claim C1, amended.  The options that \<^verbatim>\<open>send\<close> issues the request with are the
  merge of the constructor options and the call-time options in which, for
  \<^verbatim>\<open>hostname\<close>, \<^verbatim>\<open>port\<close>, \<^verbatim>\<open>path\<close> and \<^verbatim>\<open>protocol\<close>, a truthy constructor
  value wins and the call-time value is used otherwise, with \<^verbatim>\<open>'/'\<close> and
  \<^verbatim>\<open>'http:'\<close> when neither is truthy; for every other key the call-time value
  wins over the constructor value.  Objects have unique keys.
\<close>

theorem send_options_constructor_first:
  assumes "distinct (map fst (options c))" and "distinct (map fst ro)"
    and "R = resolve_options (options c) ro"
  shows "issued (trace (fst (send check sock (Some ro) body c))) = issued (trace c) @ [(select_transport R, R)]
       \<and> get_prop R ''hostname'' = js_or (get_prop (options c) ''hostname'') (get_prop ro ''hostname'')
       \<and> get_prop R ''port'' = js_or (get_prop (options c) ''port'') (get_prop ro ''port'')
       \<and> get_prop R ''path'' =
            js_or (js_or (get_prop (options c) ''path'') (get_prop ro ''path'')) (JStr ''/'')
       \<and> get_prop R ''protocol'' =
            js_or (js_or (get_prop (options c) ''protocol'') (get_prop ro ''protocol'')) (JStr ''http:'')
       \<and> (\<forall>k. k \<notin> {''hostname'', ''port'', ''path'', ''protocol''} \<longrightarrow>
              get_prop R k = (if k \<in> fst ` set ro then get_prop ro k else get_prop (options c) k))"
proof -
  have a: "issued (trace (fst (send check sock (Some ro) body c))) = issued (trace c) @ [(select_transport R, R)]"
    by (simp add: issued_send assms(3))
  have b: "get_prop R ''hostname'' = js_or (get_prop (options c) ''hostname'') (get_prop ro ''hostname'')"
    by (simp add: assms(3) resolve_options_def get_prop_set_prop)
  have c: "get_prop R ''port'' = js_or (get_prop (options c) ''port'') (get_prop ro ''port'')"
    by (simp add: assms(3) resolve_options_def get_prop_set_prop)
  have d: "get_prop R ''path'' =
            js_or (js_or (get_prop (options c) ''path'') (get_prop ro ''path'')) (JStr ''/'')"
    by (simp add: assms(3) resolve_options_def get_prop_set_prop)
  have e: "get_prop R ''protocol'' =
            js_or (js_or (get_prop (options c) ''protocol'') (get_prop ro ''protocol'')) (JStr ''http:'')"
    by (simp add: assms(3) resolve_options_def get_prop_set_prop)
  have f: "get_prop R k = (if k \<in> fst ` set ro then get_prop ro k else get_prop (options c) k)"
    if "k \<notin> {''hostname'', ''port'', ''path'', ''protocol''}" for k
  proof -
    from that have "get_prop R k = get_prop (spread ro (spread (options c) [])) k"
      by (simp add: assms(3) resolve_options_def get_prop_set_prop)
    then show ?thesis
      using get_prop_spread [OF assms(2) assms(1)] by simp
  qed
  from a b c d e f show ?thesis by blast
qed

text \<open>The amended claim at a client constructed with a hostname, sent with another hostname and a method.\<close>

theorem send_options_constructor_first_witness:
  "distinct (map fst (options (HTTPClient [(''hostname'', JStr ''a.example'')])))
   \<and> distinct (map fst [(''hostname'', JStr ''b.example''), (''method'', JStr ''POST'')])
   \<and> get_prop (resolve_options (options (HTTPClient [(''hostname'', JStr ''a.example'')]))
                 [(''hostname'', JStr ''b.example''), (''method'', JStr ''POST'')]) ''hostname''
       = JStr ''a.example''
   \<and> get_prop (resolve_options (options (HTTPClient [(''hostname'', JStr ''a.example'')]))
                 [(''hostname'', JStr ''b.example''), (''method'', JStr ''POST'')]) ''method''
       = JStr ''POST''
   \<and> get_prop (resolve_options (options (HTTPClient [(''hostname'', JStr ''a.example'')]))
                 [(''hostname'', JStr ''b.example''), (''method'', JStr ''POST'')]) ''path''
       = JStr ''/''"
proof -
  have h1: "distinct (map fst (options (HTTPClient [(''hostname'', JStr ''a.example'')])))"
    by (simp add: HTTPClient_def spread_def set_prop_def)
  have h2: "distinct (map fst [(''hostname'', JStr ''b.example''), (''method'', JStr ''POST'')])"
    by simp
  note t = send_options_constructor_first [OF h1 h2 refl, where check = protocol_supported
      and sock = 1 and body = JUndefined]
  have m: "''method'' \<notin> {''hostname'', ''port'', ''path'', ''protocol''}" by simp
  from t have "get_prop (resolve_options (options (HTTPClient [(''hostname'', JStr ''a.example'')]))
                 [(''hostname'', JStr ''b.example''), (''method'', JStr ''POST'')]) ''method''
       = JStr ''POST''"
    using m by (simp add: get_prop_def)
  with t h1 h2 show ?thesis
    by (simp add: HTTPClient_def spread_def set_prop_def get_prop_def js_or_def)
qed

section \<open>The client: order of events (C8)\<close>

lemma emissions_append: "emissions (xs @ ys) = emissions xs @ emissions ys"
  by (induction xs rule: emissions.induct) simp_all

lemma lifecycle_append: "lifecycle (xs @ ys) = lifecycle xs @ lifecycle ys"
  by (simp add: lifecycle_def)

lemma lifecycle_Nil: "lifecycle [] = []"
  by (simp add: lifecycle_def)

lemma errors_emit_no_lifecycle:
  "list_all is_error_event evs \<Longrightarrow>
   \<exists>new. emissions (trace (fst (fold deliver evs (c, k)))) = emissions (trace c) @ new
        \<and> lifecycle new = []"
proof (induction evs arbitrary: c k)
  case Nil
  then show ?case by (simp add: lifecycle_Nil)
next
  case (Cons ev evs)
  then have rest: "list_all is_error_event evs" by simp
  obtain c1 k1 where step: "deliver ev (c, k) = (c1, k1)" by (cases "deliver ev (c, k)")
  from Cons.prems have "\<exists>new1. emissions (trace c1) = emissions (trace c) @ new1 \<and> lifecycle new1 = []"
    using step
    by (cases ev)
       (auto simp: on_res_error_def on_req_error_def reject_def call_def Let_def
          emissions_append lifecycle_def split: if_splits)
  then obtain new1 where n1: "emissions (trace c1) = emissions (trace c) @ new1" "lifecycle new1 = []"
    by blast
  from Cons.IH [OF rest, of c1 k1] obtain new2 where
    n2: "emissions (trace (fst (fold deliver evs (c1, k1)))) = emissions (trace c1) @ new2"
        "lifecycle new2 = []"
    by blast
  have "emissions (trace (fst (fold deliver (ev # evs) (c, k)))) = emissions (trace c) @ (new1 @ new2)"
    using n1 n2 step by simp
  moreover have "lifecycle (new1 @ new2) = []"
    using n1 n2 by (simp add: lifecycle_append)
  ultimately show ?case by blast
qed

lemma streaming_order:
  "requested k \<Longrightarrow> responded k \<Longrightarrow> stream_ok evs \<Longrightarrow>
   \<exists>new. emissions (trace (fst (fold deliver evs (c, k)))) = emissions (trace c) @ new
        \<and> receives_then_disconnect (lifecycle new)"
proof (induction evs arbitrary: c k)
  case Nil
  then show ?case by (simp add: lifecycle_def)
next
  case (Cons ev evs)
  show ?case
  proof (cases ev)
    case (Response sc hs)
    with Cons.prems have "fold deliver (ev # evs) (c, k) = fold deliver evs (c, k)"
      by (simp add: on_response_def)
    moreover from Cons.prems Response have "stream_ok evs" by simp
    ultimately show ?thesis using Cons.IH [OF Cons.prems(1) Cons.prems(2), of c] by simp
  next
    case (Data chunk)
    define c1 where "c1 = c\<lparr>trace := call ''receive'' [Handle (Some (req_socket k)), Buf chunk] (trace c)\<rparr>"
    define k1 where "k1 = k\<lparr>responseData := responseData k @ toString chunk\<rparr>"
    from Cons.prems Data have step: "fold deliver (ev # evs) (c, k) = fold deliver evs (c1, k1)"
      by (simp add: on_data_def c1_def k1_def)
    from Cons.prems Data have "stream_ok evs" and "responded k1" and "requested k1"
      by (simp_all add: k1_def)
    from Cons.IH [OF this(3) this(2) this(1), of c1] obtain new where
      n: "emissions (trace (fst (fold deliver evs (c1, k1)))) = emissions (trace c1) @ new"
         "receives_then_disconnect (lifecycle new)"
      by blast
    have "emissions (trace c1) = emissions (trace c) @ [(''receive'', [Handle (Some (req_socket k)), Buf chunk])]"
      by (simp add: c1_def call_def emissions_append)
    with n step have
      "emissions (trace (fst (fold deliver (ev # evs) (c, k)))) =
         emissions (trace c) @ ((''receive'', [Handle (Some (req_socket k)), Buf chunk]) # new)"
      by simp
    moreover have "receives_then_disconnect
        (lifecycle ((''receive'', [Handle (Some (req_socket k)), Buf chunk]) # new))"
      using n(2) by (simp add: lifecycle_def)
    ultimately show ?thesis by blast
  next
    case End
    obtain c1 k1 where step: "deliver End (c, k) = (c1, k1)" by (cases "deliver End (c, k)")
    with Cons.prems(2) have
      e1: "emissions (trace c1) = emissions (trace c) @ [(''disconnect'', [Handle (Some (req_socket k))])]"
      by (auto simp: on_end_def resolve_def call_def Let_def emissions_append)
    from Cons.prems End have "list_all is_error_event evs" by simp
    from errors_emit_no_lifecycle [OF this, of c1 k1] obtain new where
      n: "emissions (trace (fst (fold deliver evs (c1, k1)))) = emissions (trace c1) @ new"
         "lifecycle new = []"
      by blast
    have "emissions (trace (fst (fold deliver (ev # evs) (c, k)))) =
            emissions (trace c) @ ((''disconnect'', [Handle (Some (req_socket k))]) # new)"
      using End step e1 n by simp
    moreover have "receives_then_disconnect
        (lifecycle ((''disconnect'', [Handle (Some (req_socket k))]) # new))"
      using n(2) by (simp add: lifecycle_def)
    ultimately show ?thesis by blast
  next
    case (ResError err)
    obtain c1 k1 where step: "deliver ev (c, k) = (c1, k1)" by (cases "deliver ev (c, k)")
    with Cons.prems(1,2) ResError have
      e1: "emissions (trace c1) = emissions (trace c) @ [(''error'', [Err err, Val (JStr ''responseError''), Handle (Some (req_socket k))])]"
      and r1: "responded k1" and q1: "requested k1"
      by (auto simp: on_res_error_def reject_def call_def Let_def emissions_append)
    from Cons.prems ResError have "stream_ok evs" by simp
    from Cons.IH [OF q1 r1 this, of c1] obtain new where
      n: "emissions (trace (fst (fold deliver evs (c1, k1)))) = emissions (trace c1) @ new"
         "receives_then_disconnect (lifecycle new)"
      by blast
    have "emissions (trace (fst (fold deliver (ev # evs) (c, k)))) =
            emissions (trace c) @ ((''error'', [Err err, Val (JStr ''responseError''), Handle (Some (req_socket k))]) # new)"
      using step e1 n by simp
    moreover have "receives_then_disconnect
        (lifecycle ((''error'', [Err err, Val (JStr ''responseError''), Handle (Some (req_socket k))]) # new))"
      using n(2) by (simp add: lifecycle_def)
    ultimately show ?thesis by blast
  next
    case (ReqError err)
    obtain c1 k1 where step: "deliver ev (c, k) = (c1, k1)" by (cases "deliver ev (c, k)")
    with Cons.prems(1,2) ReqError have
      e1: "emissions (trace c1) = emissions (trace c) @ [(''error'', [Err err, Val (JStr ''requestError''), Handle None])]"
      and r1: "responded k1" and q1: "requested k1"
      by (auto simp: on_req_error_def reject_def call_def Let_def emissions_append)
    from Cons.prems ReqError have "stream_ok evs" by simp
    from Cons.IH [OF q1 r1 this, of c1] obtain new where
      n: "emissions (trace (fst (fold deliver evs (c1, k1)))) = emissions (trace c1) @ new"
         "receives_then_disconnect (lifecycle new)"
      by blast
    have "emissions (trace (fst (fold deliver (ev # evs) (c, k)))) =
            emissions (trace c) @ ((''error'', [Err err, Val (JStr ''requestError''), Handle None]) # new)"
      using step e1 n by simp
    moreover have "receives_then_disconnect
        (lifecycle ((''error'', [Err err, Val (JStr ''requestError''), Handle None]) # new))"
      using n(2) by (simp add: lifecycle_def)
    ultimately show ?thesis by blast
  qed
qed

lemma awaiting_order:
  "requested k \<Longrightarrow> \<not> responded k \<Longrightarrow> stream_ok evs \<Longrightarrow>
   \<exists>new. emissions (trace (fst (fold deliver evs (c, k)))) = emissions (trace c) @ new
        \<and> (lifecycle new = [] \<or>
            (\<exists>b rest. lifecycle new = (''connect'', b) # rest \<and> receives_then_disconnect rest))"
proof (induction evs arbitrary: c k)
  case Nil
  then show ?case by (simp add: lifecycle_Nil)
next
  case (Cons ev evs)
  show ?case
  proof (cases ev)
    case (Response sc hs)
    define c1 where "c1 = c\<lparr>connection := Some (req_socket k),
              trace := call ''connect'' [Handle (Some (req_socket k))] (trace c)\<rparr>"
    define k1 where "k1 = k\<lparr>responded := True, res_statusCode := JNum sc, res_headers := JObj hs\<rparr>"
    from Cons.prems Response have step: "fold deliver (ev # evs) (c, k) = fold deliver evs (c1, k1)"
      by (simp add: on_response_def c1_def k1_def)
    from Cons.prems Response have "stream_ok evs" and "responded k1" and "requested k1"
      by (simp_all add: k1_def)
    from streaming_order [OF this(3) this(2) this(1), of c1] obtain new where
      n: "emissions (trace (fst (fold deliver evs (c1, k1)))) = emissions (trace c1) @ new"
         "receives_then_disconnect (lifecycle new)"
      by blast
    have "emissions (trace c1) = emissions (trace c) @ [(''connect'', [Handle (Some (req_socket k))])]"
      by (simp add: c1_def call_def emissions_append)
    with n step have
      "emissions (trace (fst (fold deliver (ev # evs) (c, k)))) =
         emissions (trace c) @ ((''connect'', [Handle (Some (req_socket k))]) # new)"
      by simp
    moreover have "lifecycle ((''connect'', [Handle (Some (req_socket k))]) # new) =
         (''connect'', [Handle (Some (req_socket k))]) # lifecycle new"
      by (simp add: lifecycle_def)
    ultimately show ?thesis using n(2) by blast
  next
    case (Data chunk)
    with Cons.prems have "fold deliver (ev # evs) (c, k) = fold deliver evs (c, k)"
      by (simp add: on_data_def)
    moreover from Cons.prems Data have "stream_ok evs" by simp
    ultimately show ?thesis using Cons.IH [OF Cons.prems(1) Cons.prems(2), of c] by simp
  next
    case End
    with Cons.prems have step: "fold deliver (ev # evs) (c, k) = fold deliver evs (c, k)"
      by (simp add: on_end_def)
    from Cons.prems End have "list_all is_error_event evs" by simp
    from errors_emit_no_lifecycle [OF this, of c k] step show ?thesis by auto
  next
    case (ResError err)
    with Cons.prems have "fold deliver (ev # evs) (c, k) = fold deliver evs (c, k)"
      by (simp add: on_res_error_def)
    moreover from Cons.prems ResError have "stream_ok evs" by simp
    ultimately show ?thesis using Cons.IH [OF Cons.prems(1) Cons.prems(2), of c] by simp
  next
    case (ReqError err)
    obtain c1 k1 where step: "deliver ev (c, k) = (c1, k1)" by (cases "deliver ev (c, k)")
    with Cons.prems(1,2) ReqError have
      e1: "emissions (trace c1) = emissions (trace c) @ [(''error'', [Err err, Val (JStr ''requestError''), Handle None])]"
      and r1: "\<not> responded k1" and q1: "requested k1"
      by (auto simp: on_req_error_def reject_def call_def Let_def emissions_append)
    from Cons.prems ReqError have "stream_ok evs" by simp
    from Cons.IH [OF q1 r1 this, of c1] obtain new where
      n: "emissions (trace (fst (fold deliver evs (c1, k1)))) = emissions (trace c1) @ new"
         "lifecycle new = [] \<or>
            (\<exists>b rest. lifecycle new = (''connect'', b) # rest \<and> receives_then_disconnect rest)"
      by blast
    have "emissions (trace (fst (fold deliver (ev # evs) (c, k)))) =
            emissions (trace c) @ ((''error'', [Err err, Val (JStr ''requestError''), Handle None]) # new)"
      using step e1 n by simp
    moreover have "lifecycle ((''error'', [Err err, Val (JStr ''requestError''), Handle None]) # new)
         = lifecycle new"
      by (simp add: lifecycle_def)
    ultimately show ?thesis using n(2) by metis
  qed
qed

lemma no_request_no_listener:
  "\<not> requested k \<Longrightarrow> \<not> responded k \<Longrightarrow> fold deliver evs (c, k) = (c, k)"
proof (induction evs)
  case Nil
  then show ?case by simp
next
  case (Cons ev evs)
  then have "deliver ev (c, k) = (c, k)"
    by (cases ev)
       (simp_all add: on_response_def on_data_def on_end_def on_res_error_def on_req_error_def)
  with Cons show ?case by simp
qed

lemma send_refused:
  assumes "check (select_transport (resolve_options (options c) (case ro of None \<Rightarrow> [] | Some obj \<Rightarrow> obj)))
             (resolve_options (options c) (case ro of None \<Rightarrow> [] | Some obj \<Rightarrow> obj)) = Some err"
  shows "emissions (trace (fst (send check sock ro body c))) = emissions (trace c)"
    and "\<not> requested (snd (send check sock ro body c))"
    and "promise (snd (send check sock ro body c)) = Rejected err"
  using assms by (simp_all add: send_def Let_def emissions_append)

lemma send_emissions:
  assumes "check (select_transport (resolve_options (options c) (case ro of None \<Rightarrow> [] | Some obj \<Rightarrow> obj)))
             (resolve_options (options c) (case ro of None \<Rightarrow> [] | Some obj \<Rightarrow> obj)) = None"
  shows "emissions (trace (fst (send check sock ro body c))) =
     emissions (trace c) @
       [(''send'', [Handle None,
          Val (JObj [(''options'', JObj (resolve_options (options c) (case ro of None \<Rightarrow> [] | Some obj \<Rightarrow> obj))),
                     (''body'', body)])])]"
  using assms by (cases body) (simp_all add: send_def call_def Let_def emissions_append)

lemma send_requested:
  assumes "check (select_transport (resolve_options (options c) (case ro of None \<Rightarrow> [] | Some obj \<Rightarrow> obj)))
             (resolve_options (options c) (case ro of None \<Rightarrow> [] | Some obj \<Rightarrow> obj)) = None"
  shows "requested (snd (send check sock ro body c))"
  using assms by (cases body) (simp_all add: send_def Let_def)

lemma send_not_responded: "\<not> responded (snd (send check sock ro body c))"
  by (cases body) (simp_all add: send_def Let_def split: option.splits)

lemma send_req_socket: "req_socket (snd (send check sock ro body c)) = sock"
  by (cases body) (simp_all add: send_def Let_def split: option.splits)

lemma send_responseData: "responseData (snd (send check sock ro body c)) = []"
  by (cases body) (simp_all add: send_def Let_def split: option.splits)


lemma fold_deliver_data:
  "responded k \<Longrightarrow>
   fold deliver (map Data chunks) (c, k) =
     (c\<lparr>trace := trace c @ map (\<lambda>ch. Emit ''receive'' [Handle (Some (req_socket k)), Buf ch]) chunks\<rparr>,
      k\<lparr>responseData := responseData k @ concat (map toString chunks)\<rparr>)"
proof (induction chunks arbitrary: c k)
  case Nil
  then show ?case by simp
next
  case (Cons ch chunks)
  then show ?case by (simp add: on_data_def call_def)
qed

lemma exchange_complete:
  assumes "send check sock ro body c = (c1, k1)" and "requested k1"
  shows "client_exchange check sock ro body (response_stream sc hs chunks) c =
     (c1\<lparr>connection := None,
         trace := trace c1 @ [Emit ''connect'' [Handle (Some sock)]]
                   @ map (\<lambda>ch. Emit ''receive'' [Handle (Some sock), Buf ch]) chunks
                   @ [Emit ''disconnect'' [Handle (Some sock)],
                      Resolve (JObj [(''statusCode'', JNum sc), (''headers'', JObj hs),
                                     (''data'', JStr (concat (map toString chunks)))])]\<rparr>,
      k1\<lparr>responded := True, res_statusCode := JNum sc, res_headers := JObj hs,
         responseData := concat (map toString chunks),
         promise := settle (Resolved (JObj [(''statusCode'', JNum sc), (''headers'', JObj hs),
                                     (''data'', JStr (concat (map toString chunks)))])) (promise k1)\<rparr>)"
proof -
  from assms have "\<not> responded k1" "req_socket k1 = sock" "responseData k1 = []"
    using send_not_responded [of check sock ro body c] send_req_socket [of check sock ro body c]
      send_responseData [of check sock ro body c] by simp_all
  with assms show ?thesis
    by (simp add: client_exchange_def response_stream_def on_response_def fold_deliver_data
      on_end_def resolve_def call_def Let_def)
qed

lemma map_emissions_receive:
  "emissions (map (\<lambda>ch. Emit ''receive'' [Handle h, Buf ch]) chunks) =
     map (\<lambda>ch. (''receive'', [Handle h, Buf ch])) chunks"
  by (induction chunks) simp_all

text \<open>
  Claim C8.  Within one client call the lifecycle events are emitted in the
  order \<^verbatim>\<open>send\<close>, \<^verbatim>\<open>connect\<close>, any number of \<^verbatim>\<open>receive\<close>, \<^verbatim>\<open>disconnect\<close>, and
  \<^verbatim>\<open>send\<close> carries a \<^verbatim>\<open>null\<close> handle.  When \<^verbatim>\<open>protocol.request\<close> accepts the
  options: whatever the transport delivers, as long as nothing but errors
  follows the end of the response stream, the events the call adds to the
  trace are in that order once those of the error channel are left out; and
  for a response that completes, they are exactly \<^verbatim>\<open>send\<close> with \<^verbatim>\<open>null\<close>,
  \<^verbatim>\<open>connect\<close>, one \<^verbatim>\<open>receive\<close> per chunk in arrival order, and \<^verbatim>\<open>disconnect\<close>.
  When \<^verbatim>\<open>protocol.request\<close> refuses the options and throws, the call emits no
  event at all, whatever is delivered, and its promise is rejected with the
  error thrown.
\<close>

theorem client_event_order:
  assumes "R = resolve_options (options c) (case ro of None \<Rightarrow> [] | Some obj \<Rightarrow> obj)"
  shows
   "(check (select_transport R) R = None \<and> stream_ok evs \<longrightarrow>
      (\<exists>new. emissions (trace (fst (client_exchange check sock ro body evs c))) = emissions (trace c) @ new
            \<and> client_order (lifecycle new)))
    \<and> (check (select_transport R) R = None \<longrightarrow>
         emissions (trace (fst (client_exchange check sock ro body (response_stream sc hs chunks) c))) =
           emissions (trace c) @
             [(''send'', [Handle None, Val (JObj [(''options'', JObj R), (''body'', body)])]),
              (''connect'', [Handle (Some sock)])]
             @ map (\<lambda>ch. (''receive'', [Handle (Some sock), Buf ch])) chunks
             @ [(''disconnect'', [Handle (Some sock)])])
    \<and> (\<forall>err. check (select_transport R) R = Some err \<longrightarrow>
         emissions (trace (fst (client_exchange check sock ro body evs c))) = emissions (trace c)
         \<and> promise (snd (client_exchange check sock ro body evs c)) = Rejected err)"
proof (intro conjI impI allI)
  assume "check (select_transport R) R = None \<and> stream_ok evs"
  then have acc: "check (select_transport R) R = None" and ok: "stream_ok evs" by simp_all
  obtain c1 k1 where s: "send check sock ro body c = (c1, k1)" by (cases "send check sock ro body c")
  then have nr: "\<not> responded k1" using send_not_responded [of check sock ro body c] by simp
  from s acc have rq: "requested k1"
    using send_requested [of check c ro sock body] by (simp add: assms)
  define ev0 where "ev0 = (''send'', [Handle None, Val (JObj [(''options'', JObj R), (''body'', body)])])"
  from s acc have e0: "emissions (trace c1) = emissions (trace c) @ [ev0]"
    using send_emissions [of check c ro sock body] by (simp add: ev0_def assms)
  from awaiting_order [OF rq nr ok, of c1] obtain new where
    n: "emissions (trace (fst (fold deliver evs (c1, k1)))) = emissions (trace c1) @ new"
       "lifecycle new = [] \<or>
          (\<exists>b rest. lifecycle new = (''connect'', b) # rest \<and> receives_then_disconnect rest)"
    by blast
  have "emissions (trace (fst (client_exchange check sock ro body evs c))) = emissions (trace c) @ (ev0 # new)"
    using s e0 n(1) by (simp add: client_exchange_def)
  moreover have "lifecycle (ev0 # new) = ev0 # lifecycle new"
    by (simp add: lifecycle_def ev0_def)
  moreover have "client_order (ev0 # lifecycle new)"
    using n(2) by (auto simp: ev0_def)
  ultimately show "\<exists>new. emissions (trace (fst (client_exchange check sock ro body evs c))) = emissions (trace c) @ new
          \<and> client_order (lifecycle new)"
    by metis
next
  assume acc: "check (select_transport R) R = None"
  obtain c1 k1 where s: "send check sock ro body c = (c1, k1)" by (cases "send check sock ro body c")
  from s acc have rq: "requested k1"
    using send_requested [of check c ro sock body] by (simp add: assms)
  from s acc have e0: "emissions (trace c1) = emissions (trace c) @
      [(''send'', [Handle None, Val (JObj [(''options'', JObj R), (''body'', body)])])]"
    using send_emissions [of check c ro sock body] by (simp add: assms)
  show "emissions (trace (fst (client_exchange check sock ro body (response_stream sc hs chunks) c))) =
           emissions (trace c) @
             [(''send'', [Handle None, Val (JObj [(''options'', JObj R), (''body'', body)])]),
              (''connect'', [Handle (Some sock)])]
             @ map (\<lambda>ch. (''receive'', [Handle (Some sock), Buf ch])) chunks
             @ [(''disconnect'', [Handle (Some sock)])]"
    using e0 by (simp add: exchange_complete [OF s rq] emissions_append map_emissions_receive)
next
  fix err
  assume ref: "check (select_transport R) R = Some err"
  obtain c1 k1 where s: "send check sock ro body c = (c1, k1)" by (cases "send check sock ro body c")
  from ref have r: "emissions (trace c1) = emissions (trace c)" "\<not> requested k1" "promise k1 = Rejected err"
    using send_refused [of check c ro err sock body] s by (simp_all add: assms)
  from s have nr: "\<not> responded k1" using send_not_responded [of check sock ro body c] by simp
  have same: "client_exchange check sock ro body evs c = (c1, k1)"
    using s no_request_no_listener [OF r(2) nr] by (simp add: client_exchange_def)
  from same r show "emissions (trace (fst (client_exchange check sock ro body evs c))) = emissions (trace c)"
    by simp
  from same r show "promise (snd (client_exchange check sock ro body evs c)) = Rejected err"
    by simp
qed

text \<open>
  The order at a call whose request fails between two chunks, the exact
  events of a call that completes, and a call with the protocol \<^verbatim>\<open>ftp:\<close>, which
  the transport refuses.
\<close>

theorem client_event_order_witness:
  "stream_ok [Response 200 [], Data ''he'', ReqError (NetError ''reset''), Data ''llo'', End]
   \<and> client_order (lifecycle (emissions (trace (fst (client_exchange protocol_supported 1 None JUndefined
        [Response 200 [], Data ''he'', ReqError (NetError ''reset''), Data ''llo'', End]
        (HTTPClient []))))))
   \<and> map fst (emissions (trace (fst (client_exchange protocol_supported 1 None JUndefined
        (response_stream 200 [] [''he'', ''llo'']) (HTTPClient [])))))
      = [''send'', ''connect'', ''receive'', ''receive'', ''disconnect'']
   \<and> emissions (trace (fst (client_exchange protocol_supported 1 (Some [(''protocol'', JStr ''ftp:'')])
        JUndefined (response_stream 200 [] [''he'', ''llo'']) (HTTPClient [])))) = []
   \<and> promise (snd (client_exchange protocol_supported 1 (Some [(''protocol'', JStr ''ftp:'')])
        JUndefined (response_stream 200 [] [''he'', ''llo'']) (HTTPClient [])))
      = Rejected (TypeError ''ERR_INVALID_PROTOCOL'')"
proof -
  have ok: "stream_ok [Response 200 [], Data ''he'', ReqError (NetError ''reset''), Data ''llo'', End]"
    by simp
  have empty: "emissions (trace (HTTPClient [])) = []"
    by (simp add: HTTPClient_def)
  have acc: "protocol_supported (select_transport (resolve_options (options (HTTPClient [])) []))
               (resolve_options (options (HTTPClient [])) []) = None"
    by (simp add: protocol_supported_def select_transport_def resolve_options_def HTTPClient_def
        spread_def set_prop_def get_prop_def js_or_def)
  have ref: "protocol_supported
               (select_transport (resolve_options (options (HTTPClient [])) [(''protocol'', JStr ''ftp:'')]))
               (resolve_options (options (HTTPClient [])) [(''protocol'', JStr ''ftp:'')])
             = Some (TypeError ''ERR_INVALID_PROTOCOL'')"
    by (simp add: protocol_supported_def select_transport_def resolve_options_def HTTPClient_def
        spread_def set_prop_def get_prop_def js_or_def)
  note t = client_event_order [where check = protocol_supported and c = "HTTPClient []" and ro = None
      and evs = "[Response 200 [], Data ''he'', ReqError (NetError ''reset''), Data ''llo'', End]"
      and sock = 1 and body = JUndefined and sc = 200 and hs = "[]" and chunks = "[''he'', ''llo'']",
      OF refl]
  note u = client_event_order [where check = protocol_supported and c = "HTTPClient []"
      and ro = "Some [(''protocol'', JStr ''ftp:'')]" and evs = "response_stream 200 [] [''he'', ''llo'']"
      and sock = 1 and body = JUndefined, OF refl]
  from t ok acc empty have "client_order (lifecycle (emissions (trace (fst (client_exchange protocol_supported 1 None JUndefined
        [Response 200 [], Data ''he'', ReqError (NetError ''reset''), Data ''llo'', End]
        (HTTPClient []))))))"
    by auto
  moreover from t acc empty have "map fst (emissions (trace (fst (client_exchange protocol_supported 1 None JUndefined
        (response_stream 200 [] [''he'', ''llo'']) (HTTPClient [])))))
      = [''send'', ''connect'', ''receive'', ''receive'', ''disconnect'']"
    by simp
  moreover from u ref empty have
    "emissions (trace (fst (client_exchange protocol_supported 1 (Some [(''protocol'', JStr ''ftp:'')])
        JUndefined (response_stream 200 [] [''he'', ''llo'']) (HTTPClient [])))) = []"
    "promise (snd (client_exchange protocol_supported 1 (Some [(''protocol'', JStr ''ftp:'')])
        JUndefined (response_stream 200 [] [''he'', ''llo'']) (HTTPClient [])))
      = Rejected (TypeError ''ERR_INVALID_PROTOCOL'')"
    by simp_all
  ultimately show ?thesis using ok by blast
qed

section \<open>The client: the resolved value (C2)\<close>




section \<open>The client: disconnect (C9)\<close>

text \<open>
  Claim C9.  Every call of \<^verbatim>\<open>disconnect()\<close> emits \<^verbatim>\<open>disconnect\<close> with a \<^verbatim>\<open>null\<close>
  handle, also when a handle was held: the held socket is ended and
  destroyed and the stored reference cleared before the event is emitted.
  The call has no failing path: \<open>disconnect\<close> returns a client for every
  client.
\<close>

theorem disconnect_emits_null_handle:
  "trace (disconnect c) =
     trace c @ (case connection c of Some h \<Rightarrow> [SockEnd h, SockDestroy h] | None \<Rightarrow> [])
             @ [Emit ''disconnect'' [Handle None]]
   \<and> connection (disconnect c) = None
   \<and> options (disconnect c) = options c"
  by (cases "connection c") (simp_all add: disconnect_def call_def Let_def)

text \<open>A client that holds handle 7 after a response head, and a fresh client.\<close>

theorem disconnect_emits_null_handle_witness:
  "connection (fst (deliver (Response 200 []) (send protocol_supported 7 None JUndefined (HTTPClient [])))) = Some 7
   \<and> drop 4 (trace (disconnect (fst (deliver (Response 200 []) (send protocol_supported 7 None JUndefined (HTTPClient []))))))
       = [SockEnd 7, SockDestroy 7, Emit ''disconnect'' [Handle None]]
   \<and> trace (disconnect (HTTPClient [])) = [Emit ''disconnect'' [Handle None]]"
proof -
  have acc: "protocol_supported (select_transport (resolve_options (options (HTTPClient [])) []))
               (resolve_options (options (HTTPClient [])) []) = None"
    by (simp add: protocol_supported_def select_transport_def resolve_options_def HTTPClient_def
        spread_def set_prop_def get_prop_def js_or_def)
  have held: "connection (fst (deliver (Response 200 []) (send protocol_supported 7 None JUndefined (HTTPClient [])))) = Some 7"
    using acc by (simp add: send_def HTTPClient_def call_def on_response_def Let_def)
  have len: "length (trace (fst (deliver (Response 200 []) (send protocol_supported 7 None JUndefined (HTTPClient []))))) = 4"
    using acc by (simp add: send_def HTTPClient_def call_def on_response_def Let_def)
  have none: "connection (HTTPClient []) = None" "trace (HTTPClient []) = []"
    by (simp_all add: HTTPClient_def)
  from disconnect_emits_null_handle [of "fst (deliver (Response 200 []) (send protocol_supported 7 None JUndefined (HTTPClient [])))"]
    disconnect_emits_null_handle [of "HTTPClient []"]
  show ?thesis using held len none by simp
qed

section \<open>The server: echo round trip (C3)\<close>

lemma utf8_text_decodes: "utf8_text buf \<Longrightarrow> utf8 0 0x80 0xBF [] buf = buf"
proof (induction buf rule: utf8_text.induct)
  case 1
  then show ?case by simp
next
  case (2 b bs)
  then show ?case
    by (auto split: if_splits list.splits)
qed

lemma toString_utf8_text: "utf8_text buf \<Longrightarrow> toString buf = buf"
  by (simp add: toString_def utf8_text_decodes)

lemma concat_toString_utf8_text:
  "list_all utf8_text cs \<Longrightarrow> concat (map toString cs) = concat cs"
  by (induction cs) (simp_all add: toString_utf8_text)

lemma fold_serve_chunks:
  "fold (serve pm) (map Chunk cs) (s, x) = (s, x\<lparr>data := data x @ concat (map toString cs)\<rparr>)"
  by (induction cs arbitrary: x) (simp_all add: req_on_data_def)

lemma serverCallback_request_stream:
  "serverCallback pm h (request_stream cs) s =
     req_on_end pm (s, \<lparr> socket = h, data = concat (map toString cs), res = new_response \<rparr>)"
  by (simp add: serverCallback_def request_stream_def fold_serve_chunks)

text \<open>
  Claim C3, as stated: for every request body the echoing server writes
  exactly that body.  It does not.  A request body of the single byte
  \<^verbatim>\<open>ff\<close> comes back as the three bytes \<^verbatim>\<open>ef bf bd\<close>; and the two bytes
  \<^verbatim>\<open>c3 a9\<close>, one character in UTF-8, arriving in two chunks of one byte come
  back as \<^verbatim>\<open>ef bf bd ef bf bd\<close>, while the same two bytes in one chunk come
  back as they are.
\<close>

theorem echo_round_trip_counterexample:
  "wire_body (res (snd (serverCallback echo 4 (request_stream [[CHR 0xFF]]) HTTPServer)))
     = [CHR 0xEF, CHR 0xBF, CHR 0xBD]
   \<and> wire_body (res (snd (serverCallback echo 4 (request_stream [[CHR 0xFF]]) HTTPServer)))
     \<noteq> concat [[CHR 0xFF]]
   \<and> wire_body (res (snd (serverCallback echo 4 (request_stream [[CHR 0xC3], [CHR 0xA9]]) HTTPServer)))
     = [CHR 0xEF, CHR 0xBF, CHR 0xBD, CHR 0xEF, CHR 0xBF, CHR 0xBD]
   \<and> wire_body (res (snd (serverCallback echo 4 (request_stream [[CHR 0xC3], [CHR 0xA9]]) HTTPServer)))
     \<noteq> concat [[CHR 0xC3], [CHR 0xA9]]
   \<and> wire_body (res (snd (serverCallback echo 4 (request_stream [[CHR 0xC3, CHR 0xA9]]) HTTPServer)))
     = [CHR 0xC3, CHR 0xA9]"
  by (simp add: serverCallback_def request_stream_def req_on_data_def req_on_end_def echo_def
      Let_def res_end_def res_write_def new_response_def call_def handleConnection_def
      HTTPServer_def toString_def byte_def replacement_def)

text \<open>
  Claim C3, amended.  For every request body that arrives in chunks each of
  which is well-formed UTF-8 on its own (every ASCII body, and every UTF-8
  text none of whose characters is split between two chunks), a server whose
  \<^verbatim>\<open>processMessage\<close> handler returns its body argument unchanged (and leaves
  the response alone) writes exactly that body as the response body and ends
  the response, with status 200.
\<close>

theorem echo_round_trip:
  assumes "list_all utf8_text cs"
    and "pm h (concat cs) new_response = (new_response, Returns (JStr (concat cs)))"
  shows "wire_body (res (snd (serverCallback pm h (request_stream cs) s))) = concat cs
       \<and> finished (res (snd (serverCallback pm h (request_stream cs) s)))
       \<and> wire_status (res (snd (serverCallback pm h (request_stream cs) s))) = Some 200
       \<and> data (snd (serverCallback pm h (request_stream cs) s)) = concat cs"
  using assms
  by (simp add: serverCallback_request_stream concat_toString_utf8_text req_on_end_def Let_def
      res_end_def res_write_def new_response_def)

text \<open>
  The round trip at the body \<^verbatim>\<open>caf\<close> followed by the bytes \<^verbatim>\<open>c3 a9\<close>, arriving
  in two chunks that split no character, with the handler \<open>echo\<close>.
\<close>

theorem echo_round_trip_witness:
  "list_all utf8_text [''caf'', [CHR 0xC3, CHR 0xA9]]
   \<and> echo 4 (concat [''caf'', [CHR 0xC3, CHR 0xA9]]) new_response
       = (new_response, Returns (JStr (concat [''caf'', [CHR 0xC3, CHR 0xA9]])))
   \<and> wire_body (res (snd (serverCallback echo 4 (request_stream [''caf'', [CHR 0xC3, CHR 0xA9]]) HTTPServer)))
       = [CHR ''c'', CHR ''a'', CHR ''f'', CHR 0xC3, CHR 0xA9]
   \<and> finished (res (snd (serverCallback echo 4 (request_stream [''caf'', [CHR 0xC3, CHR 0xA9]]) HTTPServer)))"
proof -
  have t: "list_all utf8_text [''caf'', [CHR 0xC3, CHR 0xA9]]"
    by (simp add: byte_def)
  have h: "echo 4 (concat [''caf'', [CHR 0xC3, CHR 0xA9]]) new_response
       = (new_response, Returns (JStr (concat [''caf'', [CHR 0xC3, CHR 0xA9]])))"
    by (simp add: echo_def)
  from echo_round_trip [where pm = echo and h = 4 and cs = "[''caf'', [CHR 0xC3, CHR 0xA9]]"
      and s = HTTPServer, OF t h] t h
  show ?thesis by simp
qed

section \<open>The server: the result of processMessage (C7)\<close>



section \<open>The server: a handler that throws (C4)\<close>

text \<open>
  Claim C4, as stated: the server responds with status 500 and a generic body
  if and only if the response has not yet been sent.  The \<^verbatim>\<open>catch\<close> block has
  no such condition: it assigns the status code and ends the response
  whatever the handler has sent.  First, a handler writes \<^verbatim>\<open>partial\<close> to the
  response and throws: the head is out with status 200, the response is not
  finished, and the server appends the generic body, so that the client gets
  neither status 500 with the generic body nor the response as the handler
  left it.  Second, a handler sends the head with status 500 itself and
  throws: the head was sent, and the client still gets status 500 with the
  generic body.
\<close>

theorem request_handler_failure_counterexample:
  "headersSent (res_write ''partial'' new_response)
   \<and> \<not> finished (res_write ''partial'' new_response)
   \<and> res (snd (serverCallback (\<lambda>h body r. (res_write ''partial'' r, Throws (AppError ''boom'')))
                  4 (request_stream [''ping'']) HTTPServer))
       = \<lparr> statusCode = 500, headersSent = True, finished = True,
           wire_status = Some 200, wire_body = ''partialInternal Server Error'' \<rparr>
   \<and> res (snd (serverCallback
                  (\<lambda>h body r. (r\<lparr>statusCode := 500, headersSent := True, wire_status := Some 500\<rparr>,
                                Throws (AppError ''boom'')))
                  4 (request_stream [''ping'']) HTTPServer))
       = \<lparr> statusCode = 500, headersSent = True, finished = True,
           wire_status = Some 500, wire_body = ''Internal Server Error'' \<rparr>"
  by (simp add: serverCallback_def request_stream_def req_on_data_def req_on_end_def Let_def
      res_write_def res_end_def new_response_def call_def handleConnection_def HTTPServer_def
      toString_def byte_def)

text \<open>
  Claim C4, amended.  For every exchange in which the \<^verbatim>\<open>processMessage\<close>
  handler throws, the server catches the exception, sets the status code of
  the response to 500 and ends it with the generic body, whatever was sent
  before, and forwards the exception through the error channel tagged
  \<^verbatim>\<open>requestHandler\<close>, after \<^verbatim>\<open>connect\<close> and \<^verbatim>\<open>receive\<close>.  On the wire that is
  status 500 and the generic body when the handler had written nothing; the
  generic body appended under the status already sent when the handler had
  written part of a response; and no change when the handler had ended the
  response.  The exchange completes: the exception does not leave the
  listener.
\<close>

theorem request_handler_failure:
  assumes "pm h (concat (map toString cs)) new_response = (r, Throws err)"
  shows "emitted (fst (serverCallback pm h (request_stream cs) s)) =
           emitted s @ [Emit ''connect'' [Handle (Some h)],
                        Emit ''receive'' [Handle (Some h), Val (JStr (concat (map toString cs)))],
                        Emit ''error'' [Err err, Val (JStr ''requestHandler''), Req, Res]]
       \<and> res (snd (serverCallback pm h (request_stream cs) s)) =
           res_end ''Internal Server Error'' (r\<lparr>statusCode := 500\<rparr>)
       \<and> statusCode (res (snd (serverCallback pm h (request_stream cs) s))) = 500
       \<and> finished (res (snd (serverCallback pm h (request_stream cs) s)))
       \<and> (\<not> headersSent r \<and> \<not> finished r \<longrightarrow>
            wire_status (res (snd (serverCallback pm h (request_stream cs) s))) = Some 500
            \<and> wire_body (res (snd (serverCallback pm h (request_stream cs) s))) =
                wire_body r @ ''Internal Server Error'')
       \<and> (headersSent r \<and> \<not> finished r \<longrightarrow>
            wire_status (res (snd (serverCallback pm h (request_stream cs) s))) = wire_status r
            \<and> wire_body (res (snd (serverCallback pm h (request_stream cs) s))) =
                wire_body r @ ''Internal Server Error'')
       \<and> (finished r \<longrightarrow>
            wire_status (res (snd (serverCallback pm h (request_stream cs) s))) = wire_status r
            \<and> wire_body (res (snd (serverCallback pm h (request_stream cs) s))) = wire_body r)"
  using assms
  by (simp add: serverCallback_request_stream req_on_end_def Let_def call_def handleConnection_def
      res_end_def res_write_def)

text \<open>
  A handler that throws at once, one that ends the response and then throws,
  and one that writes part of a response and then throws.
\<close>

theorem request_handler_failure_witness:
  "emitted (fst (serverCallback (\<lambda>h body r. (r, Throws (AppError ''boom''))) 4 (request_stream [''ping'']) HTTPServer))
     = [Emit ''connect'' [Handle (Some 4)], Emit ''receive'' [Handle (Some 4), Val (JStr ''ping'')],
        Emit ''error'' [Err (AppError ''boom''), Val (JStr ''requestHandler''), Req, Res]]
   \<and> wire_status (res (snd (serverCallback (\<lambda>h body r. (r, Throws (AppError ''boom''))) 4 (request_stream [''ping'']) HTTPServer)))
     = Some 500
   \<and> wire_body (res (snd (serverCallback (\<lambda>h body r. (r, Throws (AppError ''boom''))) 4 (request_stream [''ping'']) HTTPServer)))
     = ''Internal Server Error''
   \<and> wire_status (res (snd (serverCallback (\<lambda>h body r. (res_end ''done'' r, Throws (AppError ''boom''))) 4 (request_stream [''ping'']) HTTPServer)))
     = Some 200
   \<and> wire_body (res (snd (serverCallback (\<lambda>h body r. (res_end ''done'' r, Throws (AppError ''boom''))) 4 (request_stream [''ping'']) HTTPServer)))
     = ''done''
   \<and> wire_status (res (snd (serverCallback (\<lambda>h body r. (res_write ''partial'' r, Throws (AppError ''boom''))) 4 (request_stream [''ping'']) HTTPServer)))
     = Some 200
   \<and> wire_body (res (snd (serverCallback (\<lambda>h body r. (res_write ''partial'' r, Throws (AppError ''boom''))) 4 (request_stream [''ping'']) HTTPServer)))
     = ''partialInternal Server Error''"
proof -
  have e: "emitted HTTPServer = []" by (simp add: HTTPServer_def)
  have fresh: "\<not> headersSent new_response \<and> \<not> finished new_response" "wire_body new_response = []"
    by (simp_all add: new_response_def)
  have ended: "finished (res_end ''done'' new_response)"
    "wire_status (res_end ''done'' new_response) = Some 200"
    "wire_body (res_end ''done'' new_response) = ''done''"
    by (simp_all add: res_end_def res_write_def new_response_def)
  have partial: "headersSent (res_write ''partial'' new_response) \<and> \<not> finished (res_write ''partial'' new_response)"
    "wire_status (res_write ''partial'' new_response) = Some 200"
    "wire_body (res_write ''partial'' new_response) = ''partial''"
    by (simp_all add: res_write_def new_response_def)
  note t1 = request_handler_failure [where pm = "\<lambda>h body r. (r, Throws (AppError ''boom''))" and h = 4
        and cs = "[''ping'']" and s = HTTPServer and r = new_response and err = "AppError ''boom''"]
  note t2 = request_handler_failure [where pm = "\<lambda>h body r. (res_end ''done'' r, Throws (AppError ''boom''))"
        and h = 4 and cs = "[''ping'']" and s = HTTPServer and r = "res_end ''done'' new_response"
        and err = "AppError ''boom''"]
  note t3 = request_handler_failure [where pm = "\<lambda>h body r. (res_write ''partial'' r, Throws (AppError ''boom''))"
        and h = 4 and cs = "[''ping'']" and s = HTTPServer and r = "res_write ''partial'' new_response"
        and err = "AppError ''boom''"]
  from t1 e fresh have
    "emitted (fst (serverCallback (\<lambda>h body r. (r, Throws (AppError ''boom''))) 4 (request_stream [''ping'']) HTTPServer))
     = [Emit ''connect'' [Handle (Some 4)], Emit ''receive'' [Handle (Some 4), Val (JStr ''ping'')],
        Emit ''error'' [Err (AppError ''boom''), Val (JStr ''requestHandler''), Req, Res]]"
    "wire_status (res (snd (serverCallback (\<lambda>h body r. (r, Throws (AppError ''boom''))) 4 (request_stream [''ping'']) HTTPServer)))
     = Some 500"
    "wire_body (res (snd (serverCallback (\<lambda>h body r. (r, Throws (AppError ''boom''))) 4 (request_stream [''ping'']) HTTPServer)))
     = ''Internal Server Error''"
    by (simp_all add: res_end_def res_write_def new_response_def toString_def byte_def)
  moreover from t2 ended have
    "wire_status (res (snd (serverCallback (\<lambda>h body r. (res_end ''done'' r, Throws (AppError ''boom''))) 4 (request_stream [''ping'']) HTTPServer)))
     = Some 200"
    "wire_body (res (snd (serverCallback (\<lambda>h body r. (res_end ''done'' r, Throws (AppError ''boom''))) 4 (request_stream [''ping'']) HTTPServer)))
     = ''done''"
    by (simp_all add: res_end_def res_write_def new_response_def)
  moreover from t3 partial have
    "wire_status (res (snd (serverCallback (\<lambda>h body r. (res_write ''partial'' r, Throws (AppError ''boom''))) 4 (request_stream [''ping'']) HTTPServer)))
     = Some 200"
    "wire_body (res (snd (serverCallback (\<lambda>h body r. (res_write ''partial'' r, Throws (AppError ''boom''))) 4 (request_stream [''ping'']) HTTPServer)))
     = ''partialInternal Server Error''"
    by (simp_all add: res_end_def res_write_def new_response_def)
  ultimately show ?thesis by blast
qed

section \<open>The server: listen (C5, C6)\<close>

text \<open>
  Claim C5.  A listener error that arrives after the future of \<^verbatim>\<open>listen\<close> has
  resolved is forwarded through the error channel tagged \<^verbatim>\<open>listen\<close>, and the
  future stays resolved: the \<^verbatim>\<open>reject\<close> the handler calls has no effect on a
  settled promise.
\<close>

theorem listener_error_after_resolve:
  assumes "server s = Some l" and "p = Resolved v"
  shows "listener_step (ListenerError err) (s, p) =
           (s\<lparr>emitted := emitted s @ [Emit ''error'' [Err err, Val (JStr ''listen'')]]\<rparr>, Resolved v)"
  using assms by (simp add: call_def settle_def)

text \<open>A plain listener on port 3000 that is bound and then reports an error.\<close>

theorem listener_error_after_resolve_witness:
  "snd (listener_step Listening (listen (\<lambda>p. None) 3000 ''localhost'' HTTPServer)) = Resolved JUndefined
   \<and> fold listener_step [Listening, ListenerError (NetError ''EMFILE'')]
        (listen (\<lambda>p. None) 3000 ''localhost'' HTTPServer)
     = (\<lparr> server = Some \<lparr> secure = False, tls = None, bound_port = 3000, bound_address = ''localhost'',
                           listening = True, error_listeners = 1 \<rparr>,
          config = \<lparr> ssl = None \<rparr>,
          emitted = [Emit ''error'' [Err (NetError ''EMFILE''), Val (JStr ''listen'')]] \<rparr>,
        Resolved JUndefined)"
proof -
  define s where "s = \<lparr> server = Some \<lparr> secure = False, tls = None, bound_port = 3000,
                           bound_address = ''localhost'', listening = True, error_listeners = 1 \<rparr>,
          config = \<lparr> ssl = None \<rparr>, emitted = [] \<rparr>"
  have bound: "listener_step Listening (listen (\<lambda>p. None) 3000 ''localhost'' HTTPServer) = (s, Resolved JUndefined)"
    by (simp add: listen_def HTTPServer_def createServer_def settle_def s_def)
  have srv: "server s = Some \<lparr> secure = False, tls = None, bound_port = 3000,
                           bound_address = ''localhost'', listening = True, error_listeners = 1 \<rparr>"
    by (simp add: s_def)
  from listener_error_after_resolve [where s = s and v = JUndefined and err = "NetError ''EMFILE''", OF srv refl] bound
  show ?thesis by (simp add: s_def)
qed

text \<open>
  Claim C6.  With an SSL sub-configuration whose key or certificate file
  cannot be read, \<^verbatim>\<open>listen\<close> rejects its future with the read error (that of
  the key when the key cannot be read, that of the certificate otherwise)
  and creates no listener: \<^verbatim>\<open>this.server\<close> is what it was, \<^verbatim>\<open>null\<close> on a server
  that had none (a listener of an earlier call only gets one more error
  listener), and nothing is emitted.
\<close>

theorem listen_rejects_unreadable_tls:
  assumes "ssl (config s) = Some (keyPath, certPath)"
    and "fs keyPath = None \<or> fs certPath = None"
  shows "snd (listen fs port address s) =
           Rejected (ReadError (if fs keyPath = None then keyPath else certPath))
       \<and> server (fst (listen fs port address s)) =
           map_option (\<lambda>l. l\<lparr>error_listeners := Suc (error_listeners l)\<rparr>) (server s)
       \<and> emitted (fst (listen fs port address s)) = emitted s"
  using assms
  by (cases "server s")
     (auto simp: listen_def readFileSync_def settle_def Let_def split: option.splits)

text \<open>A new server with a missing key file, and one with a missing certificate file.\<close>

theorem listen_rejects_unreadable_tls_witness:
  "listen (\<lambda>p. None) 3000 ''localhost''
      (init \<lparr> ssl = Some (''/no/key.pem'', ''/etc/cert.pem'') \<rparr> HTTPServer)
     = (\<lparr> server = None, config = \<lparr> ssl = Some (''/no/key.pem'', ''/etc/cert.pem'') \<rparr>, emitted = [] \<rparr>,
        Rejected (ReadError ''/no/key.pem''))
   \<and> listen [''/etc/key.pem'' \<mapsto> ''KEY''] 3000 ''localhost''
      (init \<lparr> ssl = Some (''/etc/key.pem'', ''/no/cert.pem'') \<rparr> HTTPServer)
     = (\<lparr> server = None, config = \<lparr> ssl = Some (''/etc/key.pem'', ''/no/cert.pem'') \<rparr>, emitted = [] \<rparr>,
        Rejected (ReadError ''/no/cert.pem''))"
proof -
  define s1 where "s1 = init \<lparr> ssl = Some (''/no/key.pem'', ''/etc/cert.pem'') \<rparr> HTTPServer"
  define s2 where "s2 = init \<lparr> ssl = Some (''/etc/key.pem'', ''/no/cert.pem'') \<rparr> HTTPServer"
  have c1: "ssl (config s1) = Some (''/no/key.pem'', ''/etc/cert.pem'')"
    and c2: "ssl (config s2) = Some (''/etc/key.pem'', ''/no/cert.pem'')"
    by (simp_all add: s1_def s2_def init_def)
  have f1: "(\<lambda>p. None :: string option) ''/no/key.pem'' = None \<or> (\<lambda>p. None :: string option) ''/etc/cert.pem'' = None"
    by simp
  have f2: "[''/etc/key.pem'' \<mapsto> ''KEY''] ''/etc/key.pem'' = None \<or> [''/etc/key.pem'' \<mapsto> ''KEY''] ''/no/cert.pem'' = None"
    by simp
  have rest: "server s1 = None" "server s2 = None" "emitted s1 = []" "emitted s2 = []"
    "config (fst (listen (\<lambda>p. None) 3000 ''localhost'' s1)) = config s1"
    "config (fst (listen [''/etc/key.pem'' \<mapsto> ''KEY''] 3000 ''localhost'' s2)) = config s2"
    by (simp_all add: s1_def s2_def init_def HTTPServer_def listen_def readFileSync_def settle_def)
  from listen_rejects_unreadable_tls [where s = s1 and fs = "\<lambda>p. None" and port = 3000 and address = "''localhost''", OF c1 f1]
    listen_rejects_unreadable_tls [where s = s2 and fs = "[''/etc/key.pem'' \<mapsto> ''KEY'']" and port = 3000 and address = "''localhost''", OF c2 f2]
  have "listen (\<lambda>p. None) 3000 ''localhost'' s1 =
          (\<lparr> server = None, config = config s1, emitted = [] \<rparr>, Rejected (ReadError ''/no/key.pem''))"
    and "listen [''/etc/key.pem'' \<mapsto> ''KEY''] 3000 ''localhost'' s2 =
          (\<lparr> server = None, config = config s2, emitted = [] \<rparr>, Rejected (ReadError ''/no/cert.pem''))"
    using rest by (auto simp: prod_eq_iff http_server.equality)
  then show ?thesis using c1 c2
    by (simp add: s1_def s2_def init_def HTTPServer_def)
qed

section \<open>runClients (C10)\<close>

text \<open>
  Claim C10.  Every invocation of \<^verbatim>\<open>runClients\<close> fails with a ReferenceError
  for \<^verbatim>\<open>httpClient\<close>, which no scope of the function binds, right after
  \<^verbatim>\<open>postClient\<close> is constructed: the promise of the async function is rejected
  with it, \<^verbatim>\<open>postClient\<close> has created no request and emitted nothing.
\<close>

theorem runClients_reference_error:
  "runClients check stringify sock evs callbacks cfg dat opts =
     (HTTPClient (case cfg of Some obj \<Rightarrow> obj | None \<Rightarrow> default_post_options),
      Rejected (ReferenceError ''httpClient''))
   \<and> trace (fst (runClients check stringify sock evs callbacks cfg dat opts)) = []
   \<and> issued (trace (fst (runClients check stringify sock evs callbacks cfg dat opts))) = []"
  by (simp add: runClients_def resolve_identifier_def runClients_scope_def module_scope_def
      node_globals_def HTTPClient_def Let_def)

end
